theory Spec2Isabelle
  imports Complex_Main
begin

section \<open>OnionShare's Tor controller layer (onionshare/onion.py)\<close>

text \<open>
  A shallow embedding of class \<open>Onion\<close>. The object is a record; every call that leaves
  the process (the stem controller, the tor subprocess, the clock, the random source, the
  socket layer, the file system) is appended to the field \<open>trace\<close> and answered by a
  \<open>world\<close>, whose answers may depend on everything that happened before. Exceptions are
  values: an operation returns \<open>(error + 'a) \<times> onion\<close>, the outcome and the object as the
  call left it.
\<close>

subsection \<open>Exceptions\<close>

text \<open>
  Exceptions that come from outside the module. \<open>AuthenticationFailure\<close> stands for that
  class and those of its subclasses that have no \<open>except\<close> clause of their own;
  \<open>OtherException\<close> for any class the module never names.
\<close>

datatype exc =
    ProtocolError | MissingPassword | UnreadableCookieFile | AuthenticationFailure
  | OSError | ValueError | IndexError | AttributeError | NameError | OtherException

text \<open>The outcome of a failed operation: one of the module's own classes (lines 30-100),
  or a foreign exception that no handler caught.\<close>

datatype error =
    TorErrorAutomatic | TorErrorInvalidSetting
  | TorErrorSocketPort string int | TorErrorSocketFile string
  | TorErrorMissingPassword | TorErrorUnreadableCookieFile | TorErrorAuthError string int
  | TorErrorProtocolError | TorTooOld | BundledTorNotSupported | BundledTorTimeout
  | Uncaught exc

subsection \<open>The outside world\<close>

datatype endpoint = TcpPort string int | SocketFile string

type_synonym reply_line = "string \<times> string \<times> string"

datatype ctl_op =
    Authenticate "string option"
  | GetInfo string
  | GetVersion
  | CreateEphemeral "(int \<times> int) list" "(string \<times> string option) list option" bool
  | RemoveEphemeral string

datatype proc_op = Terminate | Poll | Kill

datatype call =
    Connect endpoint
  | Ctl endpoint ctl_op
  | Proc proc_op
  | Popen "string list"
  | Sleep nat
  | Time
  | RandInt int int
  | Bind string int
  | MkTemp
  | ReadResource string
  | WriteTorrc string
  | Callback string

record settings =
  connection_type :: string
  control_port_address :: string
  control_port_port :: int
  socket_file_path :: string
  auth_type :: string
  auth_password :: string
  socks_address :: string
  socks_port :: int

text \<open>
  What the module reads from its environment. The functions over \<open>call list\<close> get the
  trace up to and including the call they answer: \<open>ext_raises\<close> says whether that call
  raises, the others give the value of a call that returns. \<open>py_int\<close> is Python's
  \<open>int()\<close> on a string, \<open>shlex_split\<close> is \<open>shlex.split\<close> (None: ValueError),
  \<open>path_join\<close> is \<open>os.path.join\<close>, \<open>home_dir\<close> is what \<open>os.path.expanduser\<close>
  puts for the tilde; \<open>tor_paths\<close> is what \<open>helpers.get_tor_paths()\<close> returns;
  \<open>has_list_ephemeral\<close> says whether the installed stem's controller has a callable
  \<open>list_ephemeral_hidden_services\<close>; \<open>random_draw\<close> is the entropy behind
  \<open>random.randint\<close>. \<open>clock\<close> gives the value of the float that \<open>time.time()\<close>
  returns, and \<open>float_sub\<close> is Python's \<open>-\<close> on two floats: the subtraction of IEEE 754
  doubles, which rounds its result (\<open>45.1 - 0.1\<close> is \<open>45.0\<close>), so it is not the
  subtraction of the reals. Console output (\<open>print\<close>) and the text of the torrc file are not
  modelled.
\<close>

record world =
  platform_system :: string
  onionshare_dev_mode :: bool
  environ_TOR_CONTROL_PORT :: "string option"
  geteuid :: nat
  home_dir :: string
  tor_paths :: "string \<times> string \<times> string"
  temp_dir_name :: string
  path_join :: "string \<Rightarrow> string \<Rightarrow> string"
  py_int :: "string \<Rightarrow> int option"
  shlex_split :: "string \<Rightarrow> string list option"
  has_list_ephemeral :: bool
  ext_raises :: "call list \<Rightarrow> exc option"
  info_reply :: "call list \<Rightarrow> string"
  version_str :: "call list \<Rightarrow> string"
  create_reply :: "call list \<Rightarrow> reply_line list"
  poll_returncode :: "call list \<Rightarrow> int option"
  clock :: "call list \<Rightarrow> real"
  float_sub :: "real \<Rightarrow> real \<Rightarrow> real"
  random_draw :: "call list \<Rightarrow> nat"

subsection \<open>The object\<close>

text \<open>
  The attributes of an \<open>Onion\<close>. An attribute that Python has not assigned yet is None
  (or False, or the empty string). \<open>c\<close> is the controller, named by the endpoint it is
  connected to; \<open>tor_proc\<close> is the \<open>Popen\<close> object, named by its argument list. The two
  GeoIP paths, which only the torrc text uses, are left out.
  \<open>trace\<close> is not an attribute: it lists the external calls made so far, oldest first.
\<close>

record onion =
  stealth :: bool
  service_id :: "string option"
  settings :: settings
  tor_path :: string
  tor_proc :: "string list option"
  c :: "endpoint option"
  tor_data_directory :: "string option"
  tor_control_port :: "int option"
  tor_control_socket :: "string option"
  tor_cookie_auth_file :: "string option"
  tor_socks_port :: "int option"
  tor_torrc :: "string option"
  tor_version :: string
  supports_ephemeral :: bool
  supports_stealth :: bool
  auth_string :: "string option"
  trace :: "call list"

subsection \<open>Calls that leave the process\<close>

definition ext :: "world \<Rightarrow> call \<Rightarrow> onion \<Rightarrow> exc option \<times> onion" where
  "ext w cl s = (let tr = trace s @ [cl] in (ext_raises w tr, s\<lparr>trace := tr\<rparr>))"

text \<open>A method call on \<open>self.c\<close>; on None Python raises AttributeError before any call is made.\<close>

definition ctl :: "world \<Rightarrow> ctl_op \<Rightarrow> onion \<Rightarrow> exc option \<times> onion" where
  "ctl w op s = (case c s of None \<Rightarrow> (Some AttributeError, s) | Some ep \<Rightarrow> ext w (Ctl ep op) s)"

text \<open>\<open>time.sleep(0.2)\<close>, in milliseconds.\<close>

definition sleep :: "nat \<Rightarrow> onion \<Rightarrow> onion" where
  "sleep ms s = s\<lparr>trace := trace s @ [Sleep ms]\<rparr>"

text \<open>\<open>time.time()\<close>.\<close>

definition time_now :: "world \<Rightarrow> onion \<Rightarrow> real \<times> onion" where
  "time_now w s = (let tr = trace s @ [Time] in (clock w tr, s\<lparr>trace := tr\<rparr>))"

subsection \<open>Python's strings and lists\<close>

text \<open>\<open>s.split(sep)\<close> for a one-character separator: never empty, keeps empty pieces.\<close>

fun split_on :: "char \<Rightarrow> string \<Rightarrow> string list" where
  "split_on sep [] = [[]]"
| "split_on sep (x # xs) =
     (if x = sep then [] # split_on sep xs
      else (case split_on sep xs of [] \<Rightarrow> [[x]] | y # ys \<Rightarrow> (x # y) # ys))"

text \<open>\<open>xs[i]\<close> for \<open>i \<ge> 0\<close>; None is IndexError.\<close>

definition index :: "'a list \<Rightarrow> nat \<Rightarrow> 'a option" where
  "index xs i = (if i < length xs then Some (xs ! i) else None)"

text \<open>\<open>s.split('=')[1]\<close>.\<close>

definition after_equals :: "string \<Rightarrow> string option" where
  "after_equals s = index (split_on CHR ''='' s) 1"

text \<open>\<open>res.content()[0][2].split('=')[1]\<close> (lines 328 and 364).\<close>

definition content_service_id :: "reply_line list \<Rightarrow> string option" where
  "content_service_id content =
     (case index content 0 of None \<Rightarrow> None | Some (code, divider, text) \<Rightarrow> after_equals text)"

text \<open>\<open>res.content()[2][2].split('=')[1].split(':')[1]\<close> (line 368).\<close>

definition content_auth_cookie :: "reply_line list \<Rightarrow> string option" where
  "content_auth_cookie content =
     (case index content 2 of None \<Rightarrow> None
      | Some (code, divider, text) \<Rightarrow>
          (case after_equals text of None \<Rightarrow> None
           | Some v \<Rightarrow> index (split_on CHR '':'' v) 1))"

text \<open>Truth value of an attribute that holds None or a string.\<close>

definition truthy :: "string option \<Rightarrow> bool" where
  "truthy v = (case v of None \<Rightarrow> False | Some x \<Rightarrow> x \<noteq> [])"

text \<open>\<open>not rc\<close> for what \<open>Popen.poll()\<close> returns: None while the process runs, else its
  return code.\<close>

definition py_not :: "int option \<Rightarrow> bool" where
  "py_not rc = (case rc of None \<Rightarrow> True | Some n \<Rightarrow> n = 0)"

subsection \<open>start (lines 335-371)\<close>

text \<open>\<open>self.c.create_ephemeral_hidden_service(ports, basic_auth=..., await_publication=...)\<close>;
  the source's call without \<open>basic_auth\<close> is the one with None.\<close>

definition create_ephemeral_hidden_service ::
  "world \<Rightarrow> (int \<times> int) list \<Rightarrow> (string \<times> string option) list option \<Rightarrow> bool \<Rightarrow> onion
     \<Rightarrow> (exc + reply_line list) \<times> onion" where
  "create_ephemeral_hidden_service w ports basic_auth await_publication s =
     (case ctl w (CreateEphemeral ports basic_auth await_publication) s of
        (Some e, s1) \<Rightarrow> (Inl e, s1)
      | (None, s1) \<Rightarrow> (Inr (create_reply w (trace s1)), s1))"

definition start :: "world \<Rightarrow> int \<Rightarrow> onion \<Rightarrow> (error + string) \<times> onion" where
  "start w port s0 =
     (let s = s0\<lparr>auth_string := None\<rparr> in
      if \<not> supports_ephemeral s then (Inl TorTooOld, s)
      else if stealth s \<and> \<not> supports_stealth s then (Inl TorTooOld, s)
      else
        let basic_auth = (if stealth s then Some [(''onionshare'', None)] else None) in
        (case create_ephemeral_hidden_service w [(80, port)] basic_auth True s of
           (Inl e, s1) \<Rightarrow>
             (if e = ProtocolError then (Inl TorErrorProtocolError, s1)
              else (Inl (Uncaught e), s1))
         | (Inr res, s1) \<Rightarrow>
             (case content_service_id res of
                None \<Rightarrow> (Inl (Uncaught IndexError), s1)
              | Some sid \<Rightarrow>
                  let s2 = s1\<lparr>service_id := Some sid\<rparr>;
                      onion_host = sid @ ''.onion''
                  in if stealth s then
                       (case content_auth_cookie res of
                          None \<Rightarrow> (Inl (Uncaught IndexError), s2)
                        | Some auth_cookie \<Rightarrow>
                            (Inr onion_host,
                             s2\<lparr>auth_string :=
                                  Some (''HidServAuth '' @ onion_host @ '' '' @ auth_cookie)\<rparr>))
                     else (Inr onion_host, s2))))"

subsection \<open>cleanup (lines 373-391)\<close>

text \<open>Lines 378-383: the removal sits in a bare \<open>try/except: pass\<close>.\<close>

definition cleanup_service :: "world \<Rightarrow> onion \<Rightarrow> onion" where
  "cleanup_service w s =
     (if truthy (service_id s) then
        (case ctl w (RemoveEphemeral (the (service_id s))) s of
           (r, s1) \<Rightarrow> s1\<lparr>service_id := None\<rparr>)
      else s)"

text \<open>Lines 386-391: no handler around the three calls on the process.\<close>

definition cleanup_process :: "world \<Rightarrow> onion \<Rightarrow> (error + unit) \<times> onion" where
  "cleanup_process w s =
     (if tor_proc s \<noteq> None then
        (case ext w (Proc Terminate) s of
           (Some e, s1) \<Rightarrow> (Inl (Uncaught e), s1)
         | (None, s1) \<Rightarrow>
             (case ext w (Proc Poll) (sleep 200 s1) of
                (Some e, s2) \<Rightarrow> (Inl (Uncaught e), s2)
              | (None, s2) \<Rightarrow>
                  (if py_not (poll_returncode w (trace s2)) then
                     (case ext w (Proc Kill) s2 of
                        (Some e, s3) \<Rightarrow> (Inl (Uncaught e), s3)
                      | (None, s3) \<Rightarrow> (Inr (), s3\<lparr>tor_proc := None\<rparr>))
                   else (Inr (), s2\<lparr>tor_proc := None\<rparr>))))
      else (Inr (), s))"

definition cleanup :: "world \<Rightarrow> onion \<Rightarrow> (error + unit) \<times> onion" where
  "cleanup w s = cleanup_process w (cleanup_service w s)"

subsection \<open>Construction: connecting (lines 116-316)\<close>

text \<open>\<open>self.c = Controller.from_port(address=..., port=...)\<close> and
  \<open>self.c = Controller.from_socket_file(path=...)\<close>: the attribute is assigned only when
  the call returns.\<close>

definition c_from_port :: "world \<Rightarrow> string \<Rightarrow> int \<Rightarrow> onion \<Rightarrow> exc option \<times> onion" where
  "c_from_port w address port s =
     (case ext w (Connect (TcpPort address port)) s of
        (Some e, s1) \<Rightarrow> (Some e, s1)
      | (None, s1) \<Rightarrow> (None, s1\<lparr>c := Some (TcpPort address port)\<rparr>))"

definition c_from_socket_file :: "world \<Rightarrow> string \<Rightarrow> onion \<Rightarrow> exc option \<times> onion" where
  "c_from_socket_file w path s =
     (case ext w (Connect (SocketFile path)) s of
        (Some e, s1) \<Rightarrow> (Some e, s1)
      | (None, s1) \<Rightarrow> (None, s1\<lparr>c := Some (SocketFile path)\<rparr>))"

text \<open>\<open>'{}'.format(n)\<close> for a natural number.\<close>

fun str_nat :: "nat \<Rightarrow> string" where
  "str_nat n =
     (if n < 10 then [''0123456789'' ! n]
      else str_nat (n div 10) @ [''0123456789'' ! (n mod 10)])"

declare str_nat.simps [simp del]

text \<open>Python's \<open>a <= b\<close> on strings: lexicographic, by code point.\<close>

fun str_le :: "string \<Rightarrow> string \<Rightarrow> bool" where
  "str_le [] ys = True"
| "str_le (x # xs) [] = False"
| "str_le (x # xs) (y # ys) =
     ((of_char x :: nat) < of_char y \<or> (x = y \<and> str_le xs ys))"

text \<open>
  Lines 239-245: the \<open>for\<close> loop over the three ports stands inside one
  \<open>try ... except: pass\<close>, and nothing leaves the loop on success. The pair carries
  \<open>found_tor\<close> and the object.
\<close>

fun try_ports :: "world \<Rightarrow> int list \<Rightarrow> bool \<times> onion \<Rightarrow> bool \<times> onion" where
  "try_ports w [] (found_tor, s) = (found_tor, s)"
| "try_ports w (port # ports) (found_tor, s) =
     (case c_from_port w ''127.0.0.1'' port s of
        (Some e, s1) \<Rightarrow> (found_tor, s1)
      | (None, s1) \<Rightarrow> try_ports w ports (True, s1))"

text \<open>Lines 237-257, the branch without \<open>TOR_CONTROL_PORT\<close>. The result carries
  \<open>found_tor\<close>, the local \<open>socket_file_path\<close> (here \<open>guessed_path\<close>) and the object.\<close>

definition automatic_default_guess :: "world \<Rightarrow> onion \<Rightarrow> bool \<times> string option \<times> onion" where
  "automatic_default_guess w s =
     (case try_ports w [9151, 9153, 9051] (False, s) of
        (found_tor, s1) \<Rightarrow>
          if \<not> found_tor then
            (let guessed_path =
                   (if platform_system w = ''Darwin''
                    then home_dir w @
                         ''/Library/Application Support/TorBrowser-Data/Tor/control.socket''
                    else [])
             in case c_from_socket_file w guessed_path s1 of
                  (Some e, s2) \<Rightarrow> (False, Some guessed_path, s2)
                | (None, s2) \<Rightarrow> (True, Some guessed_path, s2))
          else (found_tor, Some [], s1))"

text \<open>Lines 226-257. With the variable set, \<open>socket_file_path\<close> is never bound (None).\<close>

definition automatic_first_guess :: "world \<Rightarrow> onion \<Rightarrow> bool \<times> string option \<times> onion" where
  "automatic_first_guess w s =
     (case environ_TOR_CONTROL_PORT w of
        None \<Rightarrow> automatic_default_guess w s
      | Some env_port \<Rightarrow>
          if env_port = [] then automatic_default_guess w s
          else (case py_int w env_port of
                  None \<Rightarrow> (False, None, s)
                | Some p \<Rightarrow>
                    (case c_from_port w ''127.0.0.1'' p s of
                       (Some e, s1) \<Rightarrow> (False, None, s1)
                     | (None, s1) \<Rightarrow> (True, None, s1))))"

text \<open>Lines 261-275, the body under \<open>if not found_tor\<close>: every exception in it, the
  module's own \<open>raise\<close> and the NameError of an unbound \<open>socket_file_path\<close> included,
  becomes TorErrorAutomatic.\<close>

definition automatic_socket_guess ::
  "world \<Rightarrow> string option \<Rightarrow> onion \<Rightarrow> (error + unit) \<times> onion" where
  "automatic_socket_guess w guessed_path s =
     (if platform_system w = ''Linux'' \<or> platform_system w = ''Darwin'' then
        (case c_from_socket_file w
                (''/run/user/'' @ str_nat (geteuid w) @ ''/Tor/control.socket'') s of
           (Some e, s1) \<Rightarrow> (Inl TorErrorAutomatic, s1)
         | (None, s1) \<Rightarrow> (Inr (), s1))
      else if platform_system w = ''Windows'' then (Inl TorErrorAutomatic, s)
      else
        (case guessed_path of
           None \<Rightarrow> (Inl TorErrorAutomatic, s)
         | Some path \<Rightarrow>
             (case c_from_socket_file w path s of
                (Some e, s1) \<Rightarrow> (Inl TorErrorAutomatic, s1)
              | (None, s1) \<Rightarrow> (Inr (), s1))))"

text \<open>Lines 222-281.\<close>

definition connect_automatic :: "world \<Rightarrow> onion \<Rightarrow> (error + unit) \<times> onion" where
  "connect_automatic w s =
     (case automatic_first_guess w s of
        (found_tor, guessed_path, s1) \<Rightarrow>
          (case (if \<not> found_tor then automatic_socket_guess w guessed_path s1
                 else (Inr (), s1)) of
             (Inl e, s2) \<Rightarrow> (Inl e, s2)
           | (Inr u, s2) \<Rightarrow>
               (case ctl w (Authenticate None) s2 of
                  (Some e, s3) \<Rightarrow> (Inl TorErrorAutomatic, s3)
                | (None, s3) \<Rightarrow> (Inr (), s3))))"

text \<open>
  Lines 287-299. The flag says whether the \<open>try\<close> body raised: the connection attempt,
  or line 293's \<open>raise TorErrorInvalidSetting\<close>, which the bare \<open>except\<close> of line 295
  catches like any other exception.
\<close>

definition manual_connect :: "world \<Rightarrow> onion \<Rightarrow> (error + unit) \<times> onion" where
  "manual_connect w s =
     (let st = settings s in
      case (if connection_type st = ''control_port'' then
              (case c_from_port w (control_port_address st) (control_port_port st) s of
                 (r, s1) \<Rightarrow> (r \<noteq> None, s1))
            else if connection_type st = ''socket_file'' then
              (case c_from_socket_file w (socket_file_path st) s of
                 (r, s1) \<Rightarrow> (r \<noteq> None, s1))
            else (True, s)) of
        (raised, s1) \<Rightarrow>
          if raised then
            (if connection_type st = ''control_port''
             then (Inl (TorErrorSocketPort (control_port_address st) (control_port_port st)), s1)
             else (Inl (TorErrorSocketFile (socket_file_path st)), s1))
          else (Inr (), s1))"

text \<open>Lines 303-316: only the three stem classes have handlers.\<close>

definition manual_authenticate :: "world \<Rightarrow> onion \<Rightarrow> (error + unit) \<times> onion" where
  "manual_authenticate w s =
     (let st = settings s in
      if auth_type st = ''no_auth'' \<or> auth_type st = ''password'' then
        (case ctl w (Authenticate (if auth_type st = ''no_auth'' then None
                                   else Some (auth_password st))) s of
           (None, s1) \<Rightarrow> (Inr (), s1)
         | (Some e, s1) \<Rightarrow>
             (if e = MissingPassword then (Inl TorErrorMissingPassword, s1)
              else if e = UnreadableCookieFile then (Inl TorErrorUnreadableCookieFile, s1)
              else if e = AuthenticationFailure then
                (Inl (TorErrorAuthError (control_port_address st) (control_port_port st)), s1)
              else (Inl (Uncaught e), s1)))
      else (Inl TorErrorInvalidSetting, s))"

text \<open>Lines 283-316.\<close>

definition connect_manual :: "world \<Rightarrow> onion \<Rightarrow> (error + unit) \<times> onion" where
  "connect_manual w s =
     (case manual_connect w s of
        (Inl e, s1) \<Rightarrow> (Inl e, s1)
      | (Inr u, s1) \<Rightarrow> manual_authenticate w s1)"

subsection \<open>Construction: the bundled tor (lines 144-220, 404-418)\<close>

text \<open>Lines 130-133.\<close>

definition bundle_tor_supported :: "world \<Rightarrow> bool" where
  "bundle_tor_supported w =
     (\<not> ((platform_system w = ''Windows'' \<or> platform_system w = ''Darwin'')
         \<and> onionshare_dev_mode w))"

text \<open>
  \<open>_get_available_port\<close> (lines 404-418): draw a port with \<open>random.randint(1000, 65535)\<close>,
  try to bind the temporary socket to it on 127.0.0.1, draw again on OSError; the port
  returned is the one the socket was bound to. The loop has no bound, so the result is an
  option: None when every bind fails for ever. The socket is closed before returning.
\<close>

partial_function (option) get_available_port ::
  "world \<Rightarrow> onion \<Rightarrow> ((error + int) \<times> onion) option" where
  "get_available_port w s =
     (let s1 = s\<lparr>trace := trace s @ [RandInt 1000 65535]\<rparr>;
          port = 1000 + int (random_draw w (trace s1) mod 64536)
      in case ext w (Bind ''127.0.0.1'' port) s1 of
           (None, s2) \<Rightarrow> Some (Inr port, s2)
         | (Some e, s2) \<Rightarrow>
             if e = OSError then get_available_port w s2
             else Some (Inl (Uncaught e), s2))"

text \<open>Lines 151-166: the template is read, then the ports are allocated one after the
  other.\<close>

definition allocate_endpoints :: "world \<Rightarrow> onion \<Rightarrow> ((error + unit) \<times> onion) option" where
  "allocate_endpoints w s =
     (let dir = temp_dir_name w in
      if platform_system w = ''Windows'' then
        (case ext w (ReadResource ''torrc_template-windows'') s of
           (Some e, s1) \<Rightarrow> Some (Inl (Uncaught e), s1)
         | (None, s1) \<Rightarrow>
             (case get_available_port w s1 of
                None \<Rightarrow> None
              | Some (Inl e, s2) \<Rightarrow> Some (Inl e, s2)
              | Some (Inr p1, s2) \<Rightarrow>
                  (case get_available_port w
                          (s2\<lparr>tor_control_port := Some p1,
                              tor_control_socket := None,
                              tor_cookie_auth_file := Some (path_join w dir ''cookie'')\<rparr>) of
                     None \<Rightarrow> None
                   | Some (Inl e, s3) \<Rightarrow> Some (Inl e, s3)
                   | Some (Inr p2, s3) \<Rightarrow>
                       Some (Inr (), s3\<lparr>tor_socks_port := Some p2,
                                         tor_torrc := Some (path_join w dir ''torrc'')\<rparr>))))
      else
        (case ext w (ReadResource ''torrc_template'') s of
           (Some e, s1) \<Rightarrow> Some (Inl (Uncaught e), s1)
         | (None, s1) \<Rightarrow>
             (case get_available_port w
                     (s1\<lparr>tor_control_port := None,
                         tor_control_socket := Some (path_join w dir ''control_socket''),
                         tor_cookie_auth_file := Some (path_join w dir ''cookie'')\<rparr>) of
                None \<Rightarrow> None
              | Some (Inl e, s2) \<Rightarrow> Some (Inl e, s2)
              | Some (Inr p2, s2) \<Rightarrow>
                  Some (Inr (), s2\<lparr>tor_socks_port := Some p2,
                                    tor_torrc := Some (path_join w dir ''torrc'')\<rparr>))))"

text \<open>
  Lines 168-196: write the torrc, read the clock, start tor, wait 200 ms, connect and
  authenticate. None of it has a handler. Returns \<open>start_ts\<close>.
\<close>

definition launch_tor :: "world \<Rightarrow> onion \<Rightarrow> (error + real) \<times> onion" where
  "launch_tor w s =
     (let torrc = path_join w (temp_dir_name w) ''torrc'' in
      case ext w (WriteTorrc torrc) s of
        (Some e, s1) \<Rightarrow> (Inl (Uncaught e), s1)
      | (None, s1) \<Rightarrow>
          (case time_now w s1 of
             (start_ts, s2) \<Rightarrow>
               (case ext w (Popen [tor_path s, ''-f'', torrc]) s2 of
                  (Some e, s3) \<Rightarrow> (Inl (Uncaught e), s3)
                | (None, s3) \<Rightarrow>
                    (let s4 = sleep 200 (s3\<lparr>tor_proc := Some [tor_path s, ''-f'', torrc]\<rparr>) in
                     case (if platform_system w = ''Windows'' then
                             (case tor_control_port s4 of
                                None \<Rightarrow> (Some OtherException, s4)
                              | Some p \<Rightarrow> c_from_port w ''127.0.0.1'' p s4)
                           else
                             (case tor_control_socket s4 of
                                None \<Rightarrow> (Some OtherException, s4)
                              | Some path \<Rightarrow> c_from_socket_file w path s4)) of
                       (Some e, s5) \<Rightarrow> (Inl (Uncaught e), s5)
                     | (None, s5) \<Rightarrow>
                         (case ctl w (Authenticate None) s5 of
                            (Some e, s6) \<Rightarrow> (Inl (Uncaught e), s6)
                          | (None, s6) \<Rightarrow> (Inr start_ts, s6))))))"

text \<open>
  One pass through the body of \<open>while True\<close> (lines 199-220). \<open>callable\<close> says whether
  \<open>bundled_tor_func\<close> is callable.
\<close>

datatype poll_result = Again onion | Finished "(error + unit) \<times> onion"

definition poll_once :: "world \<Rightarrow> bool \<Rightarrow> real \<Rightarrow> onion \<Rightarrow> poll_result" where
  "poll_once w callable start_ts s =
     (case ctl w (GetInfo ''status/bootstrap-phase'') s of
        (Some e, s1) \<Rightarrow> Finished (Inl (Uncaught e), s1)
      | (None, s1) \<Rightarrow>
          (case shlex_split w (info_reply w (trace s1)) of
             None \<Rightarrow> Finished (Inl (Uncaught ValueError), s1)
           | Some res_parts \<Rightarrow>
               (case Option.bind (index res_parts 2) after_equals of
                  None \<Rightarrow> Finished (Inl (Uncaught IndexError), s1)
                | Some progress \<Rightarrow>
                    (case Option.bind (index res_parts 4) after_equals of
                       None \<Rightarrow> Finished (Inl (Uncaught IndexError), s1)
                     | Some summary \<Rightarrow>
                         (case (if callable
                                then ext w (Callback (progress @ ''% - '' @ summary)) s1
                                else (None, s1)) of
                            (Some e, s2) \<Rightarrow> Finished (Inl (Uncaught e), s2)
                          | (None, s2) \<Rightarrow>
                              if summary = ''Done'' then Finished (Inr (), s2)
                              else
                                (case time_now w (sleep 200 s2) of
                                   (now, s3) \<Rightarrow>
                                     if float_sub w now start_ts > 45 then
                                       (case ext w (Proc Terminate) s3 of
                                          (Some e, s4) \<Rightarrow> Finished (Inl (Uncaught e), s4)
                                        | (None, s4) \<Rightarrow> Finished (Inl BundledTorTimeout, s4))
                                     else Again s3))))))"

text \<open>Lines 198-220. None: the loop never ends.\<close>

partial_function (option) bootstrap_loop ::
  "world \<Rightarrow> bool \<Rightarrow> real \<Rightarrow> onion \<Rightarrow> ((error + unit) \<times> onion) option" where
  "bootstrap_loop w callable start_ts s =
     (case poll_once w callable start_ts s of
        Finished r \<Rightarrow> Some r
      | Again s1 \<Rightarrow> bootstrap_loop w callable start_ts s1)"

text \<open>Lines 144-220.\<close>

definition connect_bundled :: "world \<Rightarrow> bool \<Rightarrow> onion \<Rightarrow> ((error + unit) \<times> onion) option" where
  "connect_bundled w callable s =
     (if \<not> bundle_tor_supported w then Some (Inl BundledTorNotSupported, s)
      else
        (case ext w MkTemp s of
           (Some e, s1) \<Rightarrow> Some (Inl (Uncaught e), s1)
         | (None, s1) \<Rightarrow>
             (case allocate_endpoints w (s1\<lparr>tor_data_directory := Some (temp_dir_name w)\<rparr>) of
                None \<Rightarrow> None
              | Some (Inl e, s2) \<Rightarrow> Some (Inl e, s2)
              | Some (Inr u, s2) \<Rightarrow>
                  (case launch_tor w s2 of
                     (Inl e, s3) \<Rightarrow> Some (Inl e, s3)
                   | (Inr start_ts, s3) \<Rightarrow> bootstrap_loop w callable start_ts s3))))"

subsection \<open>Construction: capabilities (lines 318-333)\<close>

text \<open>Lines 326-333: the whole probe stands in a bare \<open>try/except\<close>.\<close>

definition probe_stealth :: "world \<Rightarrow> onion \<Rightarrow> (error + unit) \<times> onion" where
  "probe_stealth w s =
     (case create_ephemeral_hidden_service w [(1, 1)] (Some [(''onionshare'', None)]) False s of
        (Inl e, s1) \<Rightarrow> (Inr (), s1\<lparr>supports_stealth := False\<rparr>)
      | (Inr res, s1) \<Rightarrow>
          (case content_service_id res of
             None \<Rightarrow> (Inr (), s1\<lparr>supports_stealth := False\<rparr>)
           | Some tmp_service_id \<Rightarrow>
               (case ctl w (RemoveEphemeral tmp_service_id) s1 of
                  (Some e, s2) \<Rightarrow> (Inr (), s2\<lparr>supports_stealth := False\<rparr>)
                | (None, s2) \<Rightarrow> (Inr (), s2\<lparr>supports_stealth := True\<rparr>))))"

definition probe_capabilities :: "world \<Rightarrow> onion \<Rightarrow> (error + unit) \<times> onion" where
  "probe_capabilities w s =
     (case ctl w GetVersion s of
        (Some e, s1) \<Rightarrow> (Inl (Uncaught e), s1)
      | (None, s1) \<Rightarrow>
          (let version = version_str w (trace s1) in
           probe_stealth w
             (s1\<lparr>tor_version := version,
                 supports_ephemeral :=
                   (has_list_ephemeral w \<and> str_le ''0.2.7.1'' version)\<rparr>)))"

subsection \<open>The constructor (lines 116-333) and the SOCKS endpoint (lines 393-402)\<close>

text \<open>Lines 117-142. The settings are the ones passed in or loaded from disk.\<close>

definition new_onion :: "world \<Rightarrow> bool \<Rightarrow> settings \<Rightarrow> onion" where
  "new_onion w stealth_arg settings_arg =
     \<lparr>stealth = stealth_arg, service_id = None, settings = settings_arg,
      tor_path = fst (tor_paths w), tor_proc = None, c = None,
      tor_data_directory = None, tor_control_port = None, tor_control_socket = None,
      tor_cookie_auth_file = None, tor_socks_port = None, tor_torrc = None,
      tor_version = [], supports_ephemeral = False, supports_stealth = False,
      auth_string = None, trace = []\<rparr>"

definition init :: "world \<Rightarrow> bool \<Rightarrow> settings \<Rightarrow> bool \<Rightarrow> ((error + unit) \<times> onion) option" where
  "init w stealth_arg settings_arg callable =
     (let s = new_onion w stealth_arg settings_arg in
      case (if connection_type settings_arg = ''bundled'' then connect_bundled w callable s
            else if connection_type settings_arg = ''automatic''
            then Some (connect_automatic w s)
            else Some (connect_manual w s)) of
        None \<Rightarrow> None
      | Some (Inl e, s1) \<Rightarrow> Some (Inl e, s1)
      | Some (Inr u, s1) \<Rightarrow> Some (probe_capabilities w s1))"

definition get_tor_socks_port :: "onion \<Rightarrow> string \<times> int option" where
  "get_tor_socks_port s =
     (if connection_type (settings s) = ''bundled'' then (''127.0.0.1'', tor_socks_port s)
      else if connection_type (settings s) = ''automatic'' then (''127.0.0.1'', Some 9150)
      else (socks_address (settings s), Some (socks_port (settings s))))"

subsection \<open>Concrete worlds and objects\<close>

text \<open>
  A Linux host on which every external call returns: tor answers a service creation with
  the reply lines of \<open>ADD_ONION\<close>, the tor process is still running when polled, the
  clock stands still. The clocks of the worlds below show whole seconds only, between
  which the subtraction of floats is exact.
\<close>

definition example_settings :: settings where
  "example_settings =
     \<lparr>connection_type = ''automatic'', control_port_address = ''127.0.0.1'',
      control_port_port = 9051, socket_file_path = ''/var/run/tor/control'',
      auth_type = ''no_auth'', auth_password = [], socks_address = ''127.0.0.1'',
      socks_port = 9050\<rparr>"

definition quiet_world :: world where
  "quiet_world =
     \<lparr>platform_system = ''Linux'', onionshare_dev_mode = False,
      environ_TOR_CONTROL_PORT = None, geteuid = 1000, home_dir = ''/home/user'',
      tor_paths = (''tor'', ''geoip'', ''geoip6''), temp_dir_name = ''/tmp/onionshare'',
      path_join = (\<lambda>a b. a @ ''/'' @ b), py_int = (\<lambda>t. None),
      shlex_split = (\<lambda>t. None), has_list_ephemeral = True,
      ext_raises = (\<lambda>tr. None), info_reply = (\<lambda>tr. []),
      version_str = (\<lambda>tr. ''0.2.9.9''),
      create_reply = (\<lambda>tr. [(''250'', ''-'', ''ServiceID=abcdefghijklmnop''),
                             (''250'', ''-'', ''PrivateKey=RSA1024:MIICXA''),
                             (''250'', ''-'', ''ClientAuth=onionshare:s3cr3tc00kie''),
                             (''250'', '' '', ''OK'')]),
      poll_returncode = (\<lambda>tr. None), clock = (\<lambda>tr. 0),
      float_sub = (\<lambda>a b. a - b), random_draw = (\<lambda>tr. 4000)\<rparr>"

text \<open>A manager as the constructor leaves it after connecting to a recent tor.\<close>

definition ready_onion :: onion where
  "ready_onion =
     (new_onion quiet_world False example_settings)
       \<lparr>c := Some (TcpPort ''127.0.0.1'' 9051), tor_version := ''0.2.9.9'',
        supports_ephemeral := True, supports_stealth := True\<rparr>"

text \<open>The same manager over a tor too old for ephemeral services.\<close>

definition old_tor_onion :: onion where
  "old_tor_onion = ready_onion\<lparr>tor_version := ''0.2.6.10'', supports_ephemeral := False\<rparr>"

text \<open>A stealth manager that already holds the auth string of an earlier start.\<close>

definition stealth_onion :: onion where
  "stealth_onion =
     ready_onion\<lparr>stealth := True, service_id := Some ''oldoldoldoldoldo'',
                 auth_string := Some ''HidServAuth oldoldoldoldoldo.onion oldcookie''\<rparr>"

text \<open>A manager with a bundled tor process and a running service.\<close>

definition bundled_onion :: onion where
  "bundled_onion =
     ready_onion\<lparr>service_id := Some ''abcdefghijklmnop'',
                 tor_proc := Some [''tor'', ''-f'', ''/tmp/onionshare/torrc'']\<rparr>"

text \<open>Worlds in which one kind of call raises.\<close>

definition terminate_fails_world :: world where
  "terminate_fails_world =
     quiet_world\<lparr>ext_raises := (\<lambda>tr. if tr \<noteq> [] \<and> last tr = Proc Terminate
                                   then Some OSError else None)\<rparr>"

definition kill_fails_world :: world where
  "kill_fails_world =
     quiet_world\<lparr>ext_raises := (\<lambda>tr. if tr \<noteq> [] \<and> last tr = Proc Kill
                                   then Some OSError else None)\<rparr>"

definition removal_fails_world :: world where
  "removal_fails_world =
     quiet_world\<lparr>ext_raises := (\<lambda>tr. case last tr of
                                     Ctl ep (RemoveEphemeral i) \<Rightarrow> Some ProtocolError
                                   | _ \<Rightarrow> None)\<rparr>"

definition refusing_world :: world where
  "refusing_world =
     quiet_world\<lparr>ext_raises := (\<lambda>tr. case last tr of
                                     Connect ep \<Rightarrow> Some OtherException
                                   | _ \<Rightarrow> None)\<rparr>"

text \<open>A world in which the tor process has exited on the terminate signal when polled.\<close>

definition exited_world :: world where
  "exited_world = quiet_world\<lparr>poll_returncode := (\<lambda>tr. Some (- 15))\<rparr>"

text \<open>Settings with a connection type, and with an auth type, that the module does not know.\<close>

definition unknown_type_settings :: settings where
  "unknown_type_settings = example_settings\<lparr>connection_type := ''tor_browser''\<rparr>"

definition cookie_auth_settings :: settings where
  "cookie_auth_settings =
     example_settings\<lparr>connection_type := ''control_port'', auth_type := ''cookie''\<rparr>"

text \<open>
  A Windows host with the bundled tor: every call returns, the random source gives the
  same draw each time, and tor reports that it has finished bootstrapping.
\<close>

definition bundled_settings :: settings where
  "bundled_settings = example_settings\<lparr>connection_type := ''bundled''\<rparr>"

definition windows_world :: world where
  "windows_world =
     quiet_world\<lparr>platform_system := ''Windows'',
                 info_reply := (\<lambda>tr. ''NOTICE BOOTSTRAP PROGRESS=100 TAG=done SUMMARY=Done''),
                 shlex_split := (\<lambda>t. Some [''NOTICE'', ''BOOTSTRAP'', ''PROGRESS=100'',
                                            ''TAG=done'', ''SUMMARY=Done''])\<rparr>"

text \<open>A world whose controller rejects a service creation that carries \<open>basic_auth\<close>.\<close>

definition no_stealth_world :: world where
  "no_stealth_world =
     quiet_world\<lparr>ext_raises := (\<lambda>tr. case last tr of
                                     Ctl ep (CreateEphemeral ports (Some ba) ap) \<Rightarrow>
                                       Some OtherException
                                   | _ \<Rightarrow> None)\<rparr>"

text \<open>A world in which polling the tor process raises.\<close>

definition poll_fails_world :: world where
  "poll_fails_world =
     quiet_world\<lparr>ext_raises := (\<lambda>tr. if tr \<noteq> [] \<and> last tr = Proc Poll
                                   then Some OSError else None)\<rparr>"

text \<open>
  Two worlds for the bootstrap loop; in both \<open>shlex.split\<close> has only blanks to split
  at. In the first, tor is still loading at the first poll and done at every poll after the
  first reading of the clock. In the second, tor never gets done, and the clock advances
  by 30 seconds with every reading.
\<close>

definition slow_start_world :: world where
  "slow_start_world =
     quiet_world\<lparr>info_reply := (\<lambda>tr. if Time \<in> set tr
                                   then ''NOTICE BOOTSTRAP PROGRESS=100 TAG=done SUMMARY=Done''
                                   else ''NOTICE BOOTSTRAP PROGRESS=50 TAG=loading SUMMARY=Loading''),
                 shlex_split := (\<lambda>t. Some (split_on CHR '' '' t))\<rparr>"

definition stalled_world :: world where
  "stalled_world =
     quiet_world\<lparr>info_reply := (\<lambda>tr. ''NOTICE BOOTSTRAP PROGRESS=50 TAG=loading SUMMARY=Loading''),
                 shlex_split := (\<lambda>t. Some (split_on CHR '' '' t)),
                 clock := (\<lambda>tr. 30 * real (count_list tr Time))\<rparr>"

section \<open>Properties\<close>

subsection \<open>External calls\<close>

lemma ext_eq: "ext w cl s = (ext_raises w (trace s @ [cl]), s\<lparr>trace := trace s @ [cl]\<rparr>)"
  by (simp add: ext_def Let_def)

subsection \<open>Splitting strings\<close>

text \<open>
  What \<open>split\<close> and an index into its result say about the text itself: the piece with
  index 1 is what stands between the first separator and the second one, or the end.
\<close>

lemma split_on_no_sep: "sep \<notin> set xs \<Longrightarrow> split_on sep xs = [xs]"
  by (induction xs) auto

lemma split_on_sep: "sep \<notin> set k \<Longrightarrow> split_on sep (k @ sep # ys) = k # split_on sep ys"
  by (induction k) auto

lemma split_on_not_Nil: "split_on sep t \<noteq> []"
  by (induction t) (auto split: list.splits)

lemma split_on_decomp:
  "split_on sep xs = a # pcs \<Longrightarrow>
     sep \<notin> set a \<and> (pcs = [] \<longrightarrow> xs = a)
     \<and> (pcs \<noteq> [] \<longrightarrow> (\<exists>ys. xs = a @ sep # ys \<and> split_on sep ys = pcs))"
proof (induction xs arbitrary: a pcs)
  case Nil
  then show ?case by simp
next
  case (Cons x xs)
  show ?case
  proof (cases "x = sep")
    case True
    then show ?thesis using Cons.prems split_on_not_Nil [of sep xs] by auto
  next
    case False
    obtain y ys where sp: "split_on sep xs = y # ys"
      by (cases "split_on sep xs") (cases xs, auto split: if_splits list.splits)
    from Cons.IH [OF sp] Cons.prems False sp show ?thesis by auto
  qed
qed

lemma second_piece_iff:
  "index (split_on sep t) 1 = Some v \<longleftrightarrow>
     (\<exists>k tail. t = k @ sep # v @ tail \<and> sep \<notin> set k \<and> sep \<notin> set v
        \<and> (tail = [] \<or> (\<exists>zs. tail = sep # zs)))"
proof
  assume "index (split_on sep t) 1 = Some v"
  then obtain a pcs where sp: "split_on sep t = a # v # pcs"
    by (cases "split_on sep t"; cases "tl (split_on sep t)") (auto simp: index_def split: if_splits)
  from split_on_decomp [OF sp] obtain ys where
    a: "sep \<notin> set a" "t = a @ sep # ys" "split_on sep ys = v # pcs" by auto
  from split_on_decomp [OF a(3)] have
    v: "sep \<notin> set v" "pcs = [] \<longrightarrow> ys = v" "pcs \<noteq> [] \<longrightarrow> (\<exists>zs. ys = v @ sep # zs)" by auto
  show "\<exists>k tail. t = k @ sep # v @ tail \<and> sep \<notin> set k \<and> sep \<notin> set v
        \<and> (tail = [] \<or> (\<exists>zs. tail = sep # zs))"
  proof (cases "pcs = []")
    case True
    with a v have "t = a @ sep # v @ []" by simp
    with a v show ?thesis by blast
  next
    case False
    with v obtain zs where "ys = v @ sep # zs" by auto
    with a have "t = a @ sep # v @ (sep # zs)" by simp
    with a v show ?thesis by blast
  qed
next
  assume "\<exists>k tail. t = k @ sep # v @ tail \<and> sep \<notin> set k \<and> sep \<notin> set v
        \<and> (tail = [] \<or> (\<exists>zs. tail = sep # zs))"
  then obtain k tail where h: "t = k @ sep # v @ tail" "sep \<notin> set k" "sep \<notin> set v"
      "tail = [] \<or> (\<exists>zs. tail = sep # zs)" by blast
  from h(4) show "index (split_on sep t) 1 = Some v"
  proof
    assume "tail = []"
    with h show ?thesis by (simp add: split_on_sep split_on_no_sep index_def)
  next
    assume "\<exists>zs. tail = sep # zs"
    then obtain zs where "tail = sep # zs" ..
    with h show ?thesis by (simp add: split_on_sep index_def)
  qed
qed

lemma after_equals_iff:
  "after_equals t = Some v \<longleftrightarrow>
     (\<exists>k tail. t = k @ CHR ''='' # v @ tail \<and> CHR ''='' \<notin> set k \<and> CHR ''='' \<notin> set v
        \<and> (tail = [] \<or> (\<exists>zs. tail = CHR ''='' # zs)))"
  unfolding after_equals_def by (rule second_piece_iff)

lemma split_on_single: "(\<exists>a. split_on sep t = [a]) \<longleftrightarrow> sep \<notin> set t"
proof
  assume "\<exists>a. split_on sep t = [a]"
  then obtain a where "split_on sep t = [a]" ..
  from split_on_decomp [OF this] show "sep \<notin> set t" by simp
next
  assume "sep \<notin> set t" then show "\<exists>a. split_on sep t = [a]" by (simp add: split_on_no_sep)
qed

lemma after_equals_None_iff: "after_equals t = None \<longleftrightarrow> CHR ''='' \<notin> set t"
proof -
  have "after_equals t = None \<longleftrightarrow> (\<exists>a. split_on CHR ''='' t = [a])"
    using split_on_not_Nil [of "CHR ''=''" t]
    by (cases "split_on CHR ''='' t"; cases "tl (split_on CHR ''='' t)")
       (auto simp: after_equals_def index_def)
  then show ?thesis by (simp add: split_on_single)
qed


lemma index_0_iff: "index content 0 = Some x \<longleftrightarrow> (\<exists>rest. content = x # rest)"
  by (cases content) (auto simp: index_def)

lemma index_2_iff: "index content 2 = Some x \<longleftrightarrow> (\<exists>l1 l2 rest. content = l1 # l2 # x # rest)"
proof (cases content)
  case Nil
  then show ?thesis by (simp add: index_def)
next
  case (Cons a as)
  note c1 = Cons
  show ?thesis
  proof (cases as)
    case Nil
    then show ?thesis using c1 by (simp add: index_def)
  next
    case (Cons b bs)
    then show ?thesis using c1 by (cases bs) (auto simp: index_def numeral_2_eq_2)
  qed
qed

lemma content_service_id_Some:
  "content_service_id content = Some sid \<longleftrightarrow>
     (\<exists>code dv key tail rest.
        content = (code, dv, key @ ''='' @ sid @ tail) # rest
      \<and> CHR ''='' \<notin> set key \<and> CHR ''='' \<notin> set sid
      \<and> (tail = [] \<or> (\<exists>zs. tail = CHR ''='' # zs)))"
proof
  assume a: "content_service_id content = Some sid"
  then obtain code dv ln where i: "index content 0 = Some (code, dv, ln)"
    and ae: "after_equals ln = Some sid"
    by (auto simp: content_service_id_def split: option.splits)
  from i obtain rest where c: "content = (code, dv, ln) # rest"
    by (auto simp: index_0_iff)
  from ae obtain key tail where "ln = key @ CHR ''='' # sid @ tail" "CHR ''='' \<notin> set key"
      "CHR ''='' \<notin> set sid" "tail = [] \<or> (\<exists>zs. tail = CHR ''='' # zs)"
    unfolding after_equals_iff by blast
  with c show "\<exists>code dv key tail rest.
        content = (code, dv, key @ ''='' @ sid @ tail) # rest
      \<and> CHR ''='' \<notin> set key \<and> CHR ''='' \<notin> set sid
      \<and> (tail = [] \<or> (\<exists>zs. tail = CHR ''='' # zs))"
    by auto
next
  assume "\<exists>code dv key tail rest.
        content = (code, dv, key @ ''='' @ sid @ tail) # rest
      \<and> CHR ''='' \<notin> set key \<and> CHR ''='' \<notin> set sid
      \<and> (tail = [] \<or> (\<exists>zs. tail = CHR ''='' # zs))"
  then obtain code dv key tail rest where
    c0: "content = (code, dv, key @ ''='' @ sid @ tail) # rest"
    and k: "CHR ''='' \<notin> set key" "CHR ''='' \<notin> set sid"
      "tail = [] \<or> (\<exists>zs. tail = CHR ''='' # zs)"
    by blast
  from c0 have c: "content = (code, dv, key @ CHR ''='' # sid @ tail) # rest"
    by simp
  from k have "after_equals (key @ CHR ''='' # sid @ tail) = Some sid"
    unfolding after_equals_iff by blast
  with c show "content_service_id content = Some sid"
    by (simp add: content_service_id_def index_def)
qed

lemma content_service_id_None:
  "content_service_id content = None \<longleftrightarrow>
     (content = [] \<or> (\<exists>code dv ln rest. content = (code, dv, ln) # rest \<and> CHR ''='' \<notin> set ln))"
  by (cases content)
     (auto simp: content_service_id_def index_def after_equals_None_iff)

lemma content_auth_cookie_Some:
  assumes "content_auth_cookie content = Some ck"
  shows "\<exists>l1 l2 code dv key user tail rest.
        content = l1 # l2 # (code, dv, key @ ''='' @ user @ '':'' @ ck @ tail) # rest
      \<and> CHR ''='' \<notin> set key \<and> CHR ''='' \<notin> set user \<and> CHR '':'' \<notin> set user
      \<and> CHR ''='' \<notin> set ck \<and> CHR '':'' \<notin> set ck
      \<and> (tail = [] \<or> (\<exists>zs. tail = CHR '':'' # zs) \<or> (\<exists>zs. tail = CHR ''='' # zs))"
proof -
  from assms obtain code dv ln v where i: "index content 2 = Some (code, dv, ln)"
    and ae: "after_equals ln = Some v" and sp: "index (split_on CHR '':'' v) 1 = Some ck"
    by (auto simp: content_auth_cookie_def split: option.splits)
  from i obtain l1 l2 rest where c: "content = l1 # l2 # (code, dv, ln) # rest"
    by (auto simp: index_2_iff)
  from ae obtain key etail where t: "ln = key @ CHR ''='' # v @ etail" "CHR ''='' \<notin> set key"
      "CHR ''='' \<notin> set v" "etail = [] \<or> (\<exists>zs. etail = CHR ''='' # zs)"
    unfolding after_equals_iff by blast
  from sp obtain user ctail where v: "v = user @ CHR '':'' # ck @ ctail" "CHR '':'' \<notin> set user"
      "CHR '':'' \<notin> set ck" "ctail = [] \<or> (\<exists>zs. ctail = CHR '':'' # zs)"
    unfolding second_piece_iff by blast
  have tl: "ctail @ etail = [] \<or> (\<exists>zs. ctail @ etail = CHR '':'' # zs)
      \<or> (\<exists>zs. ctail @ etail = CHR ''='' # zs)"
    using t(4) v(4) by auto
  have ln: "ln = key @ ''='' @ user @ '':'' @ ck @ (ctail @ etail)"
    using t(1) v(1) by simp
  have ne: "CHR ''='' \<notin> set user" "CHR ''='' \<notin> set ck"
    using t(3) v(1) by auto
  show ?thesis
    using c ln t(2) ne v(2,3) tl by blast
qed

subsection \<open>start\<close>

lemma start_unsupported:
  "\<not> supports_ephemeral s \<or> (stealth s \<and> \<not> supports_stealth s) \<Longrightarrow>
     start w port s = (Inl TorTooOld, s\<lparr>auth_string := None\<rparr>)"
  by (auto simp: start_def Let_def)

lemma start_no_controller:
  assumes "supports_ephemeral s" "\<not> (stealth s \<and> \<not> supports_stealth s)" "c s = None"
  shows "start w port s = (Inl (Uncaught AttributeError), s\<lparr>auth_string := None\<rparr>)"
  using assms
  by (simp add: start_def create_ephemeral_hidden_service_def ctl_def Let_def)

lemma start_connected:
  assumes "supports_ephemeral s" "\<not> (stealth s \<and> \<not> supports_stealth s)" "c s = Some ep"
  shows "start w port s =
    (let tr = trace s @ [Ctl ep (CreateEphemeral [(80, port)]
                (if stealth s then Some [(''onionshare'', None)] else None) True)];
         s1 = s\<lparr>auth_string := None, trace := tr\<rparr>
     in case ext_raises w tr of
          Some e \<Rightarrow> (Inl (if e = ProtocolError then TorErrorProtocolError else Uncaught e), s1)
        | None \<Rightarrow>
            (case content_service_id (create_reply w tr) of
               None \<Rightarrow> (Inl (Uncaught IndexError), s1)
             | Some sid \<Rightarrow>
                 if stealth s then
                   (case content_auth_cookie (create_reply w tr) of
                      None \<Rightarrow> (Inl (Uncaught IndexError), s1\<lparr>service_id := Some sid\<rparr>)
                    | Some ck \<Rightarrow>
                        (Inr (sid @ ''.onion''),
                         s1\<lparr>service_id := Some sid,
                            auth_string := Some (''HidServAuth '' @ (sid @ ''.onion'') @ '' '' @ ck)\<rparr>))
                 else (Inr (sid @ ''.onion''), s1\<lparr>service_id := Some sid\<rparr>)))"
  using assms
  by (simp add: start_def create_ephemeral_hidden_service_def ctl_def ext_eq Let_def
      split: option.splits)

text \<open>
  Claim C4. For every manager and every port, \<open>start\<close> raises TorTooOld when ephemeral
  services are unsupported, or when stealth was requested and is unsupported; it does so
  before any call to the controller (the trace is unchanged), and no service is recorded.
\<close>

theorem start_too_old:
  "\<not> supports_ephemeral s \<or> (stealth s \<and> \<not> supports_stealth s) \<Longrightarrow>
     start w port s = (Inl TorTooOld, s\<lparr>auth_string := None\<rparr>)
     \<and> trace (snd (start w port s)) = trace s
     \<and> service_id (snd (start w port s)) = service_id s"
  by (simp add: start_unsupported)

theorem start_too_old_witness:
  "\<not> supports_ephemeral old_tor_onion
   \<and> start quiet_world 8080 old_tor_onion = (Inl TorTooOld, old_tor_onion\<lparr>auth_string := None\<rparr>)
   \<and> trace (snd (start quiet_world 8080 old_tor_onion)) = trace old_tor_onion"
  using start_too_old [of old_tor_onion quiet_world 8080]
  by (simp add: old_tor_onion_def)

lemmas fixture_defs =
  quiet_world_def ready_onion_def old_tor_onion_def stealth_onion_def bundled_onion_def
  new_onion_def example_settings_def terminate_fails_world_def kill_fails_world_def
  removal_fails_world_def refusing_world_def exited_world_def unknown_type_settings_def
  cookie_auth_settings_def bundled_settings_def windows_world_def poll_fails_world_def
  no_stealth_world_def slow_start_world_def stalled_world_def

lemmas parse_defs = content_service_id_def content_auth_cookie_def after_equals_def index_def

text \<open>
  Claim C3. Whenever \<open>start\<close> returns a hostname, it has made exactly one call, a service
  creation with the port map \<open>{80: port}\<close> and publication awaited (with the
  \<open>onionshare\<close> basic-auth entry exactly when stealth was requested). The hostname is the
  service id followed by \<open>.onion\<close>, and the service id is the one the controller
  reported: in the first reply line, the text between the first \<open>=\<close> and the next one,
  or the end of the line. With stealth the auth string is \<open>HidServAuth\<close>, the hostname
  and the cookie, separated by single spaces, and the cookie is the one of the reply: in the
  third reply line, after the first \<open>=\<close>, the text between the first colon and the next
  colon or \<open>=\<close>, or the end of the line. Without stealth the auth string is None.
\<close>

theorem start_onion_host:
  assumes "start w port s = (Inr host, s')"
  shows "\<exists>ep code dv key sid tail rest.
      c s = Some ep
    \<and> trace s' = trace s @ [Ctl ep (CreateEphemeral [(80, port)]
                     (if stealth s then Some [(''onionshare'', None)] else None) True)]
    \<and> create_reply w (trace s') = (code, dv, key @ ''='' @ sid @ tail) # rest
    \<and> CHR ''='' \<notin> set key \<and> CHR ''='' \<notin> set sid
    \<and> (tail = [] \<or> (\<exists>zs. tail = CHR ''='' # zs))
    \<and> service_id s' = Some sid
    \<and> host = sid @ ''.onion''
    \<and> (if stealth s
        then \<exists>l2 code3 dv3 key3 user cookie tail3 rest3.
               rest = l2 # (code3, dv3, key3 @ ''='' @ user @ '':'' @ cookie @ tail3) # rest3
             \<and> CHR ''='' \<notin> set key3 \<and> CHR ''='' \<notin> set user \<and> CHR '':'' \<notin> set user
             \<and> CHR ''='' \<notin> set cookie \<and> CHR '':'' \<notin> set cookie
             \<and> (tail3 = [] \<or> (\<exists>zs. tail3 = CHR '':'' # zs) \<or> (\<exists>zs. tail3 = CHR ''='' # zs))
             \<and> auth_string s' = Some (''HidServAuth '' @ host @ '' '' @ cookie)
        else auth_string s' = None)"
proof -
  have se: "supports_ephemeral s"
    using assms start_unsupported [of s w port] by auto
  have st: "\<not> (stealth s \<and> \<not> supports_stealth s)"
    using assms start_unsupported [of s w port] by auto
  show ?thesis
  proof (cases "c s")
    case None
    then show ?thesis
      using assms start_no_controller [OF se st, of w port] by simp
  next
    case (Some ep)
    let ?tr = "trace s @ [Ctl ep (CreateEphemeral [(80, port)]
                     (if stealth s then Some [(''onionshare'', None)] else None) True)]"
    from assms obtain sid where tr: "trace s' = ?tr"
      and sid: "content_service_id (create_reply w ?tr) = Some sid"
      and sv: "service_id s' = Some sid" and ho: "host = sid @ ''.onion''"
      and au: "if stealth s
               then \<exists>ck. content_auth_cookie (create_reply w ?tr) = Some ck
                      \<and> auth_string s' = Some (''HidServAuth '' @ host @ '' '' @ ck)
               else auth_string s' = None"
      unfolding start_connected [OF se st Some]
      by (auto simp: Let_def split: option.splits if_splits)
    from sid obtain code dv key tail rest where
      rp: "create_reply w ?tr = (code, dv, key @ ''='' @ sid @ tail) # rest"
      and k: "CHR ''='' \<notin> set key" "CHR ''='' \<notin> set sid"
        "tail = [] \<or> (\<exists>zs. tail = CHR ''='' # zs)"
      unfolding content_service_id_Some by blast
    have auth: "if stealth s
        then \<exists>l2 code3 dv3 key3 user cookie tail3 rest3.
               rest = l2 # (code3, dv3, key3 @ ''='' @ user @ '':'' @ cookie @ tail3) # rest3
             \<and> CHR ''='' \<notin> set key3 \<and> CHR ''='' \<notin> set user \<and> CHR '':'' \<notin> set user
             \<and> CHR ''='' \<notin> set cookie \<and> CHR '':'' \<notin> set cookie
             \<and> (tail3 = [] \<or> (\<exists>zs. tail3 = CHR '':'' # zs) \<or> (\<exists>zs. tail3 = CHR ''='' # zs))
             \<and> auth_string s' = Some (''HidServAuth '' @ host @ '' '' @ cookie)
        else auth_string s' = None"
    proof (cases "stealth s")
      case False
      then show ?thesis using au by simp
    next
      case True
      with au obtain ck where ck: "content_auth_cookie (create_reply w ?tr) = Some ck"
        and as: "auth_string s' = Some (''HidServAuth '' @ host @ '' '' @ ck)"
        by auto
      from content_auth_cookie_Some [OF ck] obtain l1 l2 code3 dv3 key3 user tail3 rest3 where
        c3: "create_reply w ?tr = l1 # l2 # (code3, dv3, key3 @ ''='' @ user @ '':'' @ ck @ tail3) # rest3"
        and k3: "CHR ''='' \<notin> set key3" "CHR ''='' \<notin> set user" "CHR '':'' \<notin> set user"
          "CHR ''='' \<notin> set ck" "CHR '':'' \<notin> set ck"
          "tail3 = [] \<or> (\<exists>zs. tail3 = CHR '':'' # zs) \<or> (\<exists>zs. tail3 = CHR ''='' # zs)"
        by blast
      from rp c3 have "rest = l2 # (code3, dv3, key3 @ ''='' @ user @ '':'' @ ck @ tail3) # rest3"
        by simp
      from this k3 as show ?thesis
        by (simp only: True if_True) blast
    qed
    show ?thesis
      using Some tr rp k sv ho auth by (simp only: tr) blast
  qed
qed

theorem start_onion_host_witness:
  "start quiet_world 8080 ready_onion =
     (Inr ''abcdefghijklmnop.onion'',
      ready_onion\<lparr>auth_string := None,
                  trace := [Ctl (TcpPort ''127.0.0.1'' 9051)
                              (CreateEphemeral [(80, 8080)] None True)],
                  service_id := Some ''abcdefghijklmnop''\<rparr>)
   \<and> start quiet_world 8080 stealth_onion =
     (Inr ''abcdefghijklmnop.onion'',
      stealth_onion\<lparr>auth_string := Some ''HidServAuth abcdefghijklmnop.onion s3cr3tc00kie'',
                    trace := [Ctl (TcpPort ''127.0.0.1'' 9051)
                                (CreateEphemeral [(80, 8080)] (Some [(''onionshare'', None)]) True)],
                    service_id := Some ''abcdefghijklmnop''\<rparr>)
   \<and> create_reply quiet_world
        [Ctl (TcpPort ''127.0.0.1'' 9051)
           (CreateEphemeral [(80, 8080)] (Some [(''onionshare'', None)]) True)] =
       (''250'', ''-'', ''ServiceID'' @ ''='' @ ''abcdefghijklmnop'' @ [])
       # [(''250'', ''-'', ''PrivateKey=RSA1024:MIICXA''),
          (''250'', ''-'', ''ClientAuth'' @ ''='' @ ''onionshare'' @ '':'' @ ''s3cr3tc00kie'' @ []),
          (''250'', '' '', ''OK'')]"
proof -
  have se: "supports_ephemeral ready_onion"
    and st: "\<not> (stealth ready_onion \<and> \<not> supports_stealth ready_onion)"
    and ct: "c ready_onion = Some (TcpPort ''127.0.0.1'' 9051)"
    and ns: "\<not> stealth ready_onion"
    and tr: "trace ready_onion = []"
    by (simp_all add: fixture_defs)
  have se2: "supports_ephemeral stealth_onion"
    and st2: "\<not> (stealth stealth_onion \<and> \<not> supports_stealth stealth_onion)"
    and ct2: "c stealth_onion = Some (TcpPort ''127.0.0.1'' 9051)"
    and ys2: "stealth stealth_onion"
    and tr2: "trace stealth_onion = []"
    by (simp_all add: fixture_defs)
  have run: "start quiet_world 8080 ready_onion =
      (Inr ''abcdefghijklmnop.onion'',
       ready_onion\<lparr>auth_string := None,
                   trace := [Ctl (TcpPort ''127.0.0.1'' 9051)
                               (CreateEphemeral [(80, 8080)] None True)],
                   service_id := Some ''abcdefghijklmnop''\<rparr>)"
    unfolding start_connected [OF se st ct]
    by (simp add: quiet_world_def parse_defs Let_def ns tr)
  have run2: "start quiet_world 8080 stealth_onion =
     (Inr ''abcdefghijklmnop.onion'',
      stealth_onion\<lparr>auth_string := Some ''HidServAuth abcdefghijklmnop.onion s3cr3tc00kie'',
                    trace := [Ctl (TcpPort ''127.0.0.1'' 9051)
                                (CreateEphemeral [(80, 8080)] (Some [(''onionshare'', None)]) True)],
                    service_id := Some ''abcdefghijklmnop''\<rparr>)"
    unfolding start_connected [OF se2 st2 ct2]
    by (simp add: quiet_world_def parse_defs Let_def ys2 tr2)
  have rp: "create_reply quiet_world tr =
       (''250'', ''-'', ''ServiceID'' @ ''='' @ ''abcdefghijklmnop'' @ [])
       # [(''250'', ''-'', ''PrivateKey=RSA1024:MIICXA''),
          (''250'', ''-'', ''ClientAuth'' @ ''='' @ ''onionshare'' @ '':'' @ ''s3cr3tc00kie'' @ []),
          (''250'', '' '', ''OK'')]" for tr
    by (simp add: quiet_world_def)
  from start_onion_host [OF run] start_onion_host [OF run2] show ?thesis
    using run run2 rp by simp
qed

text \<open>
  Claim C10. The first statement of \<open>start\<close> sets \<open>auth_string\<close> to None: the outcome of
  a call does not depend on the auth string the manager held before, every call that
  raises (capability error, protocol error or any other) leaves it None, and so does every
  call of a manager without stealth.
\<close>

theorem start_resets_auth_string:
  "start w port (s\<lparr>auth_string := a\<rparr>) = start w port s
   \<and> (\<forall>e. fst (start w port s) = Inl e \<longrightarrow> auth_string (snd (start w port s)) = None)
   \<and> (\<not> stealth s \<longrightarrow> auth_string (snd (start w port s)) = None)"
proof -
  have a: "start w port (s\<lparr>auth_string := a\<rparr>) = start w port s"
    by (simp add: start_def)
  have b: "auth_string (snd (start w port s)) = None"
    if "(\<exists>e. fst (start w port s) = Inl e) \<or> \<not> stealth s"
  proof (cases "\<not> supports_ephemeral s \<or> (stealth s \<and> \<not> supports_stealth s)")
    case True
    then show ?thesis by (simp add: start_unsupported)
  next
    case False
    then have se: "supports_ephemeral s" and st: "\<not> (stealth s \<and> \<not> supports_stealth s)"
      by auto
    show ?thesis
    proof (cases "c s")
      case None
      then show ?thesis by (simp add: start_no_controller [OF se st])
    next
      case (Some ep)
      show ?thesis
        using that unfolding start_connected [OF se st Some]
        by (auto simp: Let_def split: option.splits if_splits)
    qed
  qed
  show ?thesis using a b by blast
qed

theorem start_resets_auth_string_witness:
  "\<not> stealth old_tor_onion
   \<and> fst (start quiet_world 8080 (old_tor_onion\<lparr>auth_string := Some ''HidServAuth x.onion y''\<rparr>))
       = Inl TorTooOld
   \<and> auth_string (snd (start quiet_world 8080
         (old_tor_onion\<lparr>auth_string := Some ''HidServAuth x.onion y''\<rparr>))) = None"
  using start_resets_auth_string
          [where w = quiet_world and port = 8080 and s = old_tor_onion
             and a = "Some ''HidServAuth x.onion y''"]
  by (simp add: start_unsupported fixture_defs)

subsection \<open>cleanup\<close>

lemma cleanup_service_eq:
  "cleanup_service w s =
     (if truthy (service_id s) then
        (case c s of
           None \<Rightarrow> s\<lparr>service_id := None\<rparr>
         | Some ep \<Rightarrow>
             s\<lparr>trace := trace s @ [Ctl ep (RemoveEphemeral (the (service_id s)))],
               service_id := None\<rparr>)
      else s)"
  by (simp add: cleanup_service_def ctl_def ext_eq split: option.splits)

lemma cleanup_service_fields:
  "tor_proc (cleanup_service w s) = tor_proc s"
  "service_id (cleanup_service w s) = (if service_id s = Some [] then Some [] else None)"
  by (auto simp: cleanup_service_eq truthy_def split: option.splits)

lemma cleanup_process_idle: "tor_proc s = None \<Longrightarrow> cleanup_process w s = (Inr (), s)"
  by (simp add: cleanup_process_def)

lemma cleanup_process_running:
  assumes "tor_proc s \<noteq> None"
  shows "cleanup_process w s =
     (let t1 = trace s @ [Proc Terminate];
          t2 = t1 @ [Sleep 200, Proc Poll];
          t3 = t2 @ [Proc Kill]
      in case ext_raises w t1 of
           Some e \<Rightarrow> (Inl (Uncaught e), s\<lparr>trace := t1\<rparr>)
         | None \<Rightarrow>
             (case ext_raises w t2 of
                Some e \<Rightarrow> (Inl (Uncaught e), s\<lparr>trace := t2\<rparr>)
              | None \<Rightarrow>
                  if py_not (poll_returncode w t2) then
                    (case ext_raises w t3 of
                       Some e \<Rightarrow> (Inl (Uncaught e), s\<lparr>trace := t3\<rparr>)
                     | None \<Rightarrow> (Inr (), s\<lparr>trace := t3, tor_proc := None\<rparr>))
                  else (Inr (), s\<lparr>trace := t2, tor_proc := None\<rparr>)))"
  using assms
  by (simp add: cleanup_process_def ext_eq sleep_def Let_def split: option.splits)

lemma cleanup_service_trace:
  "trace (cleanup_service w s) =
     trace s @ (case (service_id s, c s) of
                  (Some sid, Some ep) \<Rightarrow> if sid \<noteq> [] then [Ctl ep (RemoveEphemeral sid)] else []
                | _ \<Rightarrow> [])"
  by (simp add: cleanup_service_eq truthy_def split: option.splits)

lemma cleanup_again:
  assumes "tor_proc s = None" "service_id s = None \<or> service_id s = Some []"
  shows "cleanup w s = (Inr (), s)"
  using assms by (auto simp: cleanup_def cleanup_service_def truthy_def cleanup_process_idle)

lemma cleanup_outcome:
  fixes w s
  defines "s1 \<equiv> cleanup_service w s"
  defines "t1 \<equiv> trace s1 @ [Proc Terminate]"
  defines "t2 \<equiv> t1 @ [Sleep 200, Proc Poll]"
  defines "t3 \<equiv> t2 @ [Proc Kill]"
  defines "signals_return \<equiv> ext_raises w t1 = None \<and> ext_raises w t2 = None
             \<and> ((poll_returncode w t2 = None \<or> poll_returncode w t2 = Some 0)
                   \<longrightarrow> ext_raises w t3 = None)"
  shows "tor_proc s = None \<or> signals_return \<Longrightarrow>
           fst (cleanup w s) = Inr () \<and> tor_proc (snd (cleanup w s)) = None
           \<and> service_id (snd (cleanup w s)) = service_id s1"
    and "\<not> (tor_proc s = None \<or> signals_return) \<Longrightarrow>
           fst (cleanup w s) \<noteq> Inr () \<and> tor_proc (snd (cleanup w s)) = tor_proc s
           \<and> service_id (snd (cleanup w s)) = service_id s1"
proof -
  have tp: "tor_proc s1 = tor_proc s"
    by (simp add: s1_def cleanup_service_fields)
  have idle: "cleanup w s = (Inr (), s1)" if "tor_proc s = None"
    using that tp by (simp add: cleanup_def s1_def cleanup_process_idle)
  have busy: "cleanup w s =
     (case ext_raises w t1 of
           Some e \<Rightarrow> (Inl (Uncaught e), s1\<lparr>trace := t1\<rparr>)
         | None \<Rightarrow>
             (case ext_raises w t2 of
                Some e \<Rightarrow> (Inl (Uncaught e), s1\<lparr>trace := t2\<rparr>)
              | None \<Rightarrow>
                  if py_not (poll_returncode w t2) then
                    (case ext_raises w t3 of
                       Some e \<Rightarrow> (Inl (Uncaught e), s1\<lparr>trace := t3\<rparr>)
                     | None \<Rightarrow> (Inr (), s1\<lparr>trace := t3, tor_proc := None\<rparr>))
                  else (Inr (), s1\<lparr>trace := t2, tor_proc := None\<rparr>)))"
    if "tor_proc s \<noteq> None"
  proof -
    from that tp have "tor_proc (cleanup_service w s) \<noteq> None"
      by (simp add: s1_def)
    then show ?thesis
      unfolding t3_def t2_def t1_def s1_def cleanup_def
      by (simp add: cleanup_process_running Let_def)
  qed
  have pn: "py_not rc = (rc = None \<or> rc = Some 0)" for rc
    by (cases rc) (simp_all add: py_not_def)
  show "fst (cleanup w s) = Inr () \<and> tor_proc (snd (cleanup w s)) = None
           \<and> service_id (snd (cleanup w s)) = service_id s1"
    if h: "tor_proc s = None \<or> signals_return"
  proof (cases "tor_proc s = None")
    case True
    then show ?thesis using idle tp by simp
  next
    case False
    with h have sr: signals_return by simp
    then have r: "ext_raises w t1 = None" "ext_raises w t2 = None"
      "py_not (poll_returncode w t2) \<longrightarrow> ext_raises w t3 = None"
      by (simp_all add: signals_return_def pn)
    show ?thesis
      unfolding busy [OF False] using r by (simp add: r(1,2))
  qed
  show "fst (cleanup w s) \<noteq> Inr () \<and> tor_proc (snd (cleanup w s)) = tor_proc s
           \<and> service_id (snd (cleanup w s)) = service_id s1"
    if h: "\<not> (tor_proc s = None \<or> signals_return)"
  proof -
    from h have run: "tor_proc s \<noteq> None" and ns: "\<not> signals_return" by simp_all
    show ?thesis
    proof (cases "ext_raises w t1")
      case (Some e)
      then show ?thesis unfolding busy [OF run] by (simp add: tp)
    next
      case None
      note n1 = None
      show ?thesis
      proof (cases "ext_raises w t2")
        case (Some e)
        then show ?thesis unfolding busy [OF run] by (simp add: tp n1)
      next
        case None
        with n1 ns have k: "py_not (poll_returncode w t2)" "ext_raises w t3 \<noteq> None"
          by (auto simp: signals_return_def pn)
        then obtain e where "ext_raises w t3 = Some e" by auto
        then show ?thesis unfolding busy [OF run] by (simp add: tp n1 None k)
      qed
    qed
  qed
qed

text \<open>
  Claim C2, as the code has it. The removal of the service is guarded, the three calls on
  the process are not. For every world and every manager:
  \<^item> \<open>service_id\<close> is cleared whatever happens, also when the removal call or a call on
    the process raises (an empty-string \<open>service_id\<close>, which the truth test of line 378
    skips, stays as it is);
  \<^item> \<open>cleanup\<close> returns without error exactly when the manager has no process handle,
    or the calls it makes on the process return: terminate, poll, and kill when the poll
    reports None or 0. A manager that was never started, or has no process, is cleaned up
    without error in every world;
  \<^item> when it returns, \<open>tor_proc\<close> is None and a second \<open>cleanup\<close> returns without
    error and changes nothing, not even the trace;
  \<^item> when it raises, the process handle stays.

  \<open>t0\<close> is the trace after the service part: the removal call is made when there is a
  non-empty \<open>service_id\<close> and a controller.
\<close>

theorem cleanup_idempotent:
  "let t0 = trace s @ (case (service_id s, c s) of
                         (Some sid, Some ep) \<Rightarrow>
                           if sid \<noteq> [] then [Ctl ep (RemoveEphemeral sid)] else []
                       | _ \<Rightarrow> []);
       t1 = t0 @ [Proc Terminate];
       t2 = t1 @ [Sleep 200, Proc Poll];
       t3 = t2 @ [Proc Kill];
       signals_return =
         (ext_raises w t1 = None \<and> ext_raises w t2 = None
          \<and> ((poll_returncode w t2 = None \<or> poll_returncode w t2 = Some 0)
                \<longrightarrow> ext_raises w t3 = None));
       s' = snd (cleanup w s)
   in service_id s' = (if service_id s = Some [] then Some [] else None)
    \<and> (fst (cleanup w s) = Inr ()) = (tor_proc s = None \<or> signals_return)
    \<and> (tor_proc s = None \<or> signals_return
         \<longrightarrow> tor_proc s' = None \<and> cleanup w s' = (Inr (), s'))
    \<and> (\<not> (tor_proc s = None \<or> signals_return) \<longrightarrow> tor_proc s' = tor_proc s)"
proof -
  let ?s' = "snd (cleanup w s)"
  let ?t1 = "trace (cleanup_service w s) @ [Proc Terminate]"
  let ?t2 = "?t1 @ [Sleep 200, Proc Poll]"
  let ?t3 = "?t2 @ [Proc Kill]"
  let ?ok = "tor_proc s = None \<or>
             (ext_raises w ?t1 = None \<and> ext_raises w ?t2 = None
              \<and> ((poll_returncode w ?t2 = None \<or> poll_returncode w ?t2 = Some 0)
                    \<longrightarrow> ext_raises w ?t3 = None))"
  note yes = cleanup_outcome(1) [of s w]
  note no = cleanup_outcome(2) [of s w]
  have sid: "service_id ?s' = (if service_id s = Some [] then Some [] else None)"
    using yes no by (cases ?ok) (simp_all add: cleanup_service_fields)
  have iff: "(fst (cleanup w s) = Inr ()) = ?ok"
    using yes no by (cases ?ok) simp_all
  have tp: "tor_proc ?s' = None" if ?ok
    using yes that by simp
  have again: "cleanup w ?s' = (Inr (), ?s')" if ?ok
    using tp [OF that] sid by (intro cleanup_again) (simp_all split: if_splits)
  have keep: "tor_proc ?s' = tor_proc s" if "\<not> ?ok"
    using no that by simp
  show ?thesis
    unfolding Let_def cleanup_service_trace [of w s, symmetric]
  proof (intro conjI impI)
    show "service_id ?s' = (if service_id s = Some [] then Some [] else None)"
      by (rule sid)
    show "(fst (cleanup w s) = Inr ()) = ?ok"
      by (rule iff)
    show "tor_proc ?s' = None" if ?ok
      using that by (rule tp)
    show "cleanup w ?s' = (Inr (), ?s')" if ?ok
      using that by (rule again)
    show "tor_proc ?s' = tor_proc s" if "\<not> ?ok"
      using that by (rule keep)
  qed
qed

theorem cleanup_idempotent_witness:
  "(fst (cleanup terminate_fails_world (new_onion terminate_fails_world False example_settings))
      = Inr ()
    \<and> tor_proc (snd (cleanup terminate_fails_world
                       (new_onion terminate_fails_world False example_settings))) = None)
   \<and> (fst (cleanup removal_fails_world bundled_onion) = Inr ()
      \<and> service_id (snd (cleanup removal_fails_world bundled_onion)) = None
      \<and> tor_proc (snd (cleanup removal_fails_world bundled_onion)) = None
      \<and> cleanup removal_fails_world (snd (cleanup removal_fails_world bundled_onion))
          = (Inr (), snd (cleanup removal_fails_world bundled_onion)))
   \<and> (fst (cleanup poll_fails_world bundled_onion) \<noteq> Inr ()
      \<and> service_id (snd (cleanup poll_fails_world bundled_onion)) = None
      \<and> tor_proc (snd (cleanup poll_fails_world bundled_onion))
          = Some [''tor'', ''-f'', ''/tmp/onionshare/torrc''])"
proof -
  have b: "service_id bundled_onion = Some ''abcdefghijklmnop''"
      "c bundled_onion = Some (TcpPort ''127.0.0.1'' 9051)"
      "tor_proc bundled_onion = Some [''tor'', ''-f'', ''/tmp/onionshare/torrc'']"
      "trace bundled_onion = []"
    by (simp_all add: fixture_defs)
  have n: "tor_proc (new_onion terminate_fails_world False example_settings) = None"
    by (simp add: new_onion_def)
  have one: "fst (cleanup terminate_fails_world
                    (new_onion terminate_fails_world False example_settings)) = Inr ()
    \<and> tor_proc (snd (cleanup terminate_fails_world
                       (new_onion terminate_fails_world False example_settings))) = None"
    using cleanup_idempotent
            [of "new_onion terminate_fails_world False example_settings" terminate_fails_world]
    by (simp add: Let_def n)
  have two: "fst (cleanup removal_fails_world bundled_onion) = Inr ()
      \<and> service_id (snd (cleanup removal_fails_world bundled_onion)) = None
      \<and> tor_proc (snd (cleanup removal_fails_world bundled_onion)) = None
      \<and> cleanup removal_fails_world (snd (cleanup removal_fails_world bundled_onion))
          = (Inr (), snd (cleanup removal_fails_world bundled_onion))"
    using cleanup_idempotent [of bundled_onion removal_fails_world]
    by (simp add: Let_def b removal_fails_world_def quiet_world_def)
  have three: "fst (cleanup poll_fails_world bundled_onion) \<noteq> Inr ()
      \<and> service_id (snd (cleanup poll_fails_world bundled_onion)) = None
      \<and> tor_proc (snd (cleanup poll_fails_world bundled_onion))
          = Some [''tor'', ''-f'', ''/tmp/onionshare/torrc'']"
    using cleanup_idempotent [of bundled_onion poll_fails_world]
    by (simp add: Let_def b poll_fails_world_def quiet_world_def)
  show ?thesis
    using one two three by blast
qed

text \<open>
  Claim C2 as stated fails where a call on the process raises: with a \<open>kill\<close> that
  raises OSError, \<open>cleanup\<close> raises and the process handle stays.
\<close>

theorem cleanup_raises_when_kill_fails:
  "fst (cleanup kill_fails_world bundled_onion) = Inl (Uncaught OSError)
   \<and> tor_proc (snd (cleanup kill_fails_world bundled_onion)) \<noteq> None"
proof -
  have run: "tor_proc (cleanup_service kill_fails_world bundled_onion) \<noteq> None"
    by (simp add: cleanup_service_fields fixture_defs)
  show ?thesis
    unfolding cleanup_def cleanup_process_running [OF run]
    by (simp add: Let_def py_not_def kill_fails_world_def quiet_world_def cleanup_service_fields
        bundled_onion_def)
qed

text \<open>
  Claim C7, as the code has it. For a manager with a process handle, after the service
  part of \<open>cleanup\<close>: if the calls on the process do not raise, \<open>cleanup\<close> sends
  terminate, waits 200 ms and polls; when the poll reports a running process (None) it
  sends kill, when the poll reports a return code other than 0 it sends no kill; in both
  cases the handle is cleared. If terminate raises, the exception leaves \<open>cleanup\<close> and
  the handle is not cleared.
\<close>

theorem cleanup_stops_process:
  assumes "tor_proc s \<noteq> None"
  shows "let s1 = cleanup_service w s;
             t1 = trace s1 @ [Proc Terminate];
             t2 = t1 @ [Sleep 200, Proc Poll];
             t3 = t2 @ [Proc Kill]
         in (ext_raises w t1 = None \<and> ext_raises w t2 = None \<and> poll_returncode w t2 = None
               \<and> ext_raises w t3 = None
             \<longrightarrow> cleanup w s = (Inr (), s1\<lparr>trace := t3, tor_proc := None\<rparr>))
          \<and> (ext_raises w t1 = None \<and> ext_raises w t2 = None
               \<and> (\<exists>rc. poll_returncode w t2 = Some rc \<and> rc \<noteq> 0)
             \<longrightarrow> cleanup w s = (Inr (), s1\<lparr>trace := t2, tor_proc := None\<rparr>))
          \<and> (\<forall>e. ext_raises w t1 = Some e
             \<longrightarrow> cleanup w s = (Inl (Uncaught e), s1\<lparr>trace := t1\<rparr>))"
proof -
  have run: "tor_proc (cleanup_service w s) \<noteq> None"
    using assms by (simp add: cleanup_service_fields)
  show ?thesis
    unfolding cleanup_def cleanup_process_running [OF run]
    by (auto simp: Let_def py_not_def)
qed

theorem cleanup_stops_process_witness:
  "tor_proc bundled_onion \<noteq> None
   \<and> cleanup quiet_world bundled_onion =
       (Inr (), bundled_onion
          \<lparr>trace := [Ctl (TcpPort ''127.0.0.1'' 9051) (RemoveEphemeral ''abcdefghijklmnop''),
                     Proc Terminate, Sleep 200, Proc Poll, Proc Kill],
           service_id := None, tor_proc := None\<rparr>)
   \<and> cleanup exited_world bundled_onion =
       (Inr (), bundled_onion
          \<lparr>trace := [Ctl (TcpPort ''127.0.0.1'' 9051) (RemoveEphemeral ''abcdefghijklmnop''),
                     Proc Terminate, Sleep 200, Proc Poll],
           service_id := None, tor_proc := None\<rparr>)"
proof -
  have h: "tor_proc bundled_onion \<noteq> None"
    by (simp add: fixture_defs)
  have s1: "cleanup_service w bundled_onion =
      bundled_onion\<lparr>trace := [Ctl (TcpPort ''127.0.0.1'' 9051)
                                (RemoveEphemeral ''abcdefghijklmnop'')],
                    service_id := None\<rparr>" for w
    by (simp add: cleanup_service_eq truthy_def fixture_defs)
  show ?thesis
    using h cleanup_stops_process [OF h, of quiet_world]
      cleanup_stops_process [OF h, of exited_world]
    by (simp add: Let_def s1 quiet_world_def exited_world_def)
qed

text \<open>
  Claim C7 as stated fails: when the terminate call raises, the handle is not cleared.
\<close>

theorem cleanup_keeps_handle_when_terminate_fails:
  "fst (cleanup terminate_fails_world bundled_onion) = Inl (Uncaught OSError)
   \<and> tor_proc (snd (cleanup terminate_fails_world bundled_onion))
       = Some [''tor'', ''-f'', ''/tmp/onionshare/torrc'']"
proof -
  have run: "tor_proc (cleanup_service terminate_fails_world bundled_onion) \<noteq> None"
    by (simp add: cleanup_service_fields fixture_defs)
  show ?thesis
    unfolding cleanup_def cleanup_process_running [OF run]
    by (simp add: Let_def terminate_fails_world_def quiet_world_def cleanup_service_fields
        bundled_onion_def)
qed

subsection \<open>The capability probe\<close>

lemma probe_stealth_eq:
  assumes "c s = Some ep"
  shows "probe_stealth w s =
     (let t1 = trace s @ [Ctl ep (CreateEphemeral [(1, 1)] (Some [(''onionshare'', None)]) False)]
      in case ext_raises w t1 of
           Some e \<Rightarrow> (Inr (), s\<lparr>trace := t1, supports_stealth := False\<rparr>)
         | None \<Rightarrow>
             (case content_service_id (create_reply w t1) of
                None \<Rightarrow> (Inr (), s\<lparr>trace := t1, supports_stealth := False\<rparr>)
              | Some tmp \<Rightarrow>
                  (let t2 = t1 @ [Ctl ep (RemoveEphemeral tmp)]
                   in (Inr (), s\<lparr>trace := t2,
                                 supports_stealth := (ext_raises w t2 = None)\<rparr>))))"
  using assms
  by (simp add: probe_stealth_def create_ephemeral_hidden_service_def ctl_def ext_eq Let_def
      split: option.splits)

lemma probe_stealth_no_controller:
  "c s = None \<Longrightarrow> probe_stealth w s = (Inr (), s\<lparr>supports_stealth := False\<rparr>)"
  by (simp add: probe_stealth_def create_ephemeral_hidden_service_def ctl_def)

text \<open>
  Claim C5. The stealth probe never raises. It first issues one service creation with the
  port map \<open>{1: 1}\<close>, the \<open>onionshare\<close> basic-auth entry and publication not awaited.
  If that call raises, or the reply is empty or its first line has no \<open>=\<close>, nothing else
  is called and \<open>supports_stealth\<close> is False. Otherwise the probe issues exactly one
  removal, of the service that the reply names (in its first line, the text between the
  first \<open>=\<close> and the next one, or the end of the line), and \<open>supports_stealth\<close> is
  True exactly when that removal returned. Nothing else of the manager changes. Without a
  controller no call is made and \<open>supports_stealth\<close> is False.
\<close>

theorem probe_stealth_never_raises:
  "fst (probe_stealth w s) = Inr ()
   \<and> (c s = None \<longrightarrow> snd (probe_stealth w s) = s\<lparr>supports_stealth := False\<rparr>)
   \<and> (\<forall>ep. c s = Some ep \<longrightarrow>
        (let t1 = trace s @ [Ctl ep (CreateEphemeral [(1, 1)] (Some [(''onionshare'', None)]) False)];
             s' = snd (probe_stealth w s)
         in (ext_raises w t1 \<noteq> None \<or> create_reply w t1 = []
               \<or> (\<exists>code dv ln rest. create_reply w t1 = (code, dv, ln) # rest
                      \<and> CHR ''='' \<notin> set ln)
               \<longrightarrow> s' = s\<lparr>trace := t1, supports_stealth := False\<rparr>)
          \<and> (\<forall>code dv key tmp tail rest.
                 ext_raises w t1 = None
               \<and> create_reply w t1 = (code, dv, key @ ''='' @ tmp @ tail) # rest
               \<and> CHR ''='' \<notin> set key \<and> CHR ''='' \<notin> set tmp
               \<and> (tail = [] \<or> (\<exists>zs. tail = CHR ''='' # zs))
               \<longrightarrow> s' = s\<lparr>trace := t1 @ [Ctl ep (RemoveEphemeral tmp)],
                          supports_stealth :=
                            (ext_raises w (t1 @ [Ctl ep (RemoveEphemeral tmp)]) = None)\<rparr>)))"
proof (cases "c s")
  case None
  then show ?thesis by (simp add: probe_stealth_no_controller)
next
  case (Some ep)
  let ?t1 = "trace s @ [Ctl ep (CreateEphemeral [(1, 1)] (Some [(''onionshare'', None)]) False)]"
  have a: "fst (probe_stealth w s) = Inr ()"
    unfolding probe_stealth_eq [OF Some] by (simp add: Let_def split: option.splits)
  have b: "snd (probe_stealth w s) = s\<lparr>trace := ?t1, supports_stealth := False\<rparr>"
    if "ext_raises w ?t1 \<noteq> None \<or> content_service_id (create_reply w ?t1) = None"
    using that unfolding probe_stealth_eq [OF Some]
    by (auto simp: Let_def split: option.splits)
  have b': "snd (probe_stealth w s) = s\<lparr>trace := ?t1, supports_stealth := False\<rparr>"
    if "ext_raises w ?t1 \<noteq> None \<or> create_reply w ?t1 = []
               \<or> (\<exists>code dv ln rest. create_reply w ?t1 = (code, dv, ln) # rest
                      \<and> CHR ''='' \<notin> set ln)"
    using that b unfolding content_service_id_None by blast
  have d: "snd (probe_stealth w s) =
             s\<lparr>trace := ?t1 @ [Ctl ep (RemoveEphemeral tmp)],
               supports_stealth := (ext_raises w (?t1 @ [Ctl ep (RemoveEphemeral tmp)]) = None)\<rparr>"
    if "ext_raises w ?t1 = None" "content_service_id (create_reply w ?t1) = Some tmp" for tmp
    using that unfolding probe_stealth_eq [OF Some]
    by (simp add: Let_def)
  have d': "snd (probe_stealth w s) =
             s\<lparr>trace := ?t1 @ [Ctl ep (RemoveEphemeral tmp)],
               supports_stealth := (ext_raises w (?t1 @ [Ctl ep (RemoveEphemeral tmp)]) = None)\<rparr>"
    if "ext_raises w ?t1 = None"
       "create_reply w ?t1 = (code, dv, key @ ''='' @ tmp @ tail) # rest"
       "CHR ''='' \<notin> set key" "CHR ''='' \<notin> set tmp"
       "tail = [] \<or> (\<exists>zs. tail = CHR ''='' # zs)" for code dv key tmp tail rest
  proof -
    have "content_service_id (create_reply w ?t1) = Some tmp"
      unfolding content_service_id_Some using that(2-5) by blast
    with that(1) show ?thesis by (rule d)
  qed
  show ?thesis
    using Some a b' d' unfolding Let_def by (simp only: option.inject option.simps) blast
qed

theorem probe_stealth_never_raises_witness:
  "probe_stealth quiet_world ready_onion =
     (Inr (), ready_onion
        \<lparr>trace := [Ctl (TcpPort ''127.0.0.1'' 9051)
                     (CreateEphemeral [(1, 1)] (Some [(''onionshare'', None)]) False),
                   Ctl (TcpPort ''127.0.0.1'' 9051) (RemoveEphemeral ''abcdefghijklmnop'')],
         supports_stealth := True\<rparr>)
   \<and> probe_stealth removal_fails_world ready_onion =
     (Inr (), ready_onion
        \<lparr>trace := [Ctl (TcpPort ''127.0.0.1'' 9051)
                     (CreateEphemeral [(1, 1)] (Some [(''onionshare'', None)]) False),
                   Ctl (TcpPort ''127.0.0.1'' 9051) (RemoveEphemeral ''abcdefghijklmnop'')],
         supports_stealth := False\<rparr>)
   \<and> probe_stealth no_stealth_world ready_onion =
     (Inr (), ready_onion
        \<lparr>trace := [Ctl (TcpPort ''127.0.0.1'' 9051)
                     (CreateEphemeral [(1, 1)] (Some [(''onionshare'', None)]) False)],
         supports_stealth := False\<rparr>)"
proof -
  have ct: "c ready_onion = Some (TcpPort ''127.0.0.1'' 9051)"
    by (simp add: fixture_defs)
  have tr: "trace ready_onion = []"
    by (simp add: fixture_defs)
  note found = probe_stealth_never_raises
    [THEN conjunct2, THEN conjunct2, rule_format, OF ct, unfolded Let_def, THEN conjunct2,
     rule_format, of _ "''250''" "''-''" "''ServiceID''" "''abcdefghijklmnop''" "[]"]
  note failed = probe_stealth_never_raises
    [THEN conjunct2, THEN conjunct2, rule_format, OF ct, unfolded Let_def, THEN conjunct1,
     rule_format]
  have pair: "probe_stealth w ready_onion = (Inr (), snd (probe_stealth w ready_onion))" for w
    using probe_stealth_never_raises [of w ready_onion, THEN conjunct1]
    by (cases "probe_stealth w ready_onion") simp
  have q: "snd (probe_stealth quiet_world ready_onion) =
      ready_onion
        \<lparr>trace := [Ctl (TcpPort ''127.0.0.1'' 9051)
                     (CreateEphemeral [(1, 1)] (Some [(''onionshare'', None)]) False),
                   Ctl (TcpPort ''127.0.0.1'' 9051) (RemoveEphemeral ''abcdefghijklmnop'')],
         supports_stealth := True\<rparr>"
    by (subst found [of quiet_world]) (simp_all add: tr quiet_world_def)
  have r: "snd (probe_stealth removal_fails_world ready_onion) =
      ready_onion
        \<lparr>trace := [Ctl (TcpPort ''127.0.0.1'' 9051)
                     (CreateEphemeral [(1, 1)] (Some [(''onionshare'', None)]) False),
                   Ctl (TcpPort ''127.0.0.1'' 9051) (RemoveEphemeral ''abcdefghijklmnop'')],
         supports_stealth := False\<rparr>"
    by (subst found [of removal_fails_world])
       (simp_all add: tr removal_fails_world_def quiet_world_def)
  have n: "snd (probe_stealth no_stealth_world ready_onion) =
      ready_onion
        \<lparr>trace := [Ctl (TcpPort ''127.0.0.1'' 9051)
                     (CreateEphemeral [(1, 1)] (Some [(''onionshare'', None)]) False)],
         supports_stealth := False\<rparr>"
    by (subst failed [of no_stealth_world])
       (simp_all add: tr no_stealth_world_def quiet_world_def)
  show ?thesis
    using pair [of quiet_world] pair [of removal_fails_world] pair [of no_stealth_world]
    by (simp only: q r n)
qed

subsection \<open>Automatic discovery\<close>

lemma c_from_port_eq:
  "c_from_port w a p s =
     (case ext_raises w (trace s @ [Connect (TcpPort a p)]) of
        Some e \<Rightarrow> (Some e, s\<lparr>trace := trace s @ [Connect (TcpPort a p)]\<rparr>)
      | None \<Rightarrow> (None, s\<lparr>trace := trace s @ [Connect (TcpPort a p)], c := Some (TcpPort a p)\<rparr>))"
  by (simp add: c_from_port_def ext_eq split: option.splits)

lemma c_from_socket_file_eq:
  "c_from_socket_file w p s =
     (case ext_raises w (trace s @ [Connect (SocketFile p)]) of
        Some e \<Rightarrow> (Some e, s\<lparr>trace := trace s @ [Connect (SocketFile p)]\<rparr>)
      | None \<Rightarrow> (None, s\<lparr>trace := trace s @ [Connect (SocketFile p)], c := Some (SocketFile p)\<rparr>))"
  by (simp add: c_from_socket_file_def ext_eq split: option.splits)

lemma c_from_port_refused:
  "ext_raises w (trace s @ [Connect (TcpPort a p)]) \<noteq> None \<Longrightarrow>
     \<exists>e. c_from_port w a p s = (Some e, s\<lparr>trace := trace s @ [Connect (TcpPort a p)]\<rparr>)"
  by (auto simp: c_from_port_eq)

lemma c_from_socket_file_refused:
  "ext_raises w (trace s @ [Connect (SocketFile p)]) \<noteq> None \<Longrightarrow>
     \<exists>e. c_from_socket_file w p s = (Some e, s\<lparr>trace := trace s @ [Connect (SocketFile p)]\<rparr>)"
  by (auto simp: c_from_socket_file_eq)

lemma automatic_default_guess_refused:
  assumes "\<forall>tr ep. ext_raises w (tr @ [Connect ep]) \<noteq> None"
  shows "automatic_default_guess w s =
     (let p1 = (if platform_system w = ''Darwin''
                then home_dir w @ ''/Library/Application Support/TorBrowser-Data/Tor/control.socket''
                else [])
      in (False, Some p1,
          s\<lparr>trace := trace s @ [Connect (TcpPort ''127.0.0.1'' 9151), Connect (SocketFile p1)]\<rparr>))"
proof -
  let ?s1 = "s\<lparr>trace := trace s @ [Connect (TcpPort ''127.0.0.1'' 9151)]\<rparr>"
  obtain e1 where e1: "c_from_port w ''127.0.0.1'' 9151 s = (Some e1, ?s1)"
    using c_from_port_refused [of w s "''127.0.0.1''" 9151] assms by blast
  have tp: "try_ports w [9151, 9153, 9051] (False, s) = (False, ?s1)"
    by (simp add: e1)
  have sf: "\<exists>e. c_from_socket_file w p ?s1 = (Some e, ?s1\<lparr>trace := trace ?s1 @ [Connect (SocketFile p)]\<rparr>)" for p
    using c_from_socket_file_refused [of w ?s1 p] assms by blast
  show ?thesis
    using sf [of "[]"]
      sf [of "home_dir w @ ''/Library/Application Support/TorBrowser-Data/Tor/control.socket''"]
    by (auto simp: automatic_default_guess_def tp Let_def simp del: try_ports.simps)
qed

lemma automatic_socket_guess_refused:
  assumes "\<forall>tr ep. ext_raises w (tr @ [Connect ep]) \<noteq> None"
  shows "automatic_socket_guess w (Some p1) s =
     (Inl TorErrorAutomatic,
      s\<lparr>trace := trace s @
          (if platform_system w = ''Linux'' \<or> platform_system w = ''Darwin''
           then [Connect (SocketFile (''/run/user/'' @ str_nat (geteuid w) @ ''/Tor/control.socket''))]
           else if platform_system w = ''Windows'' then []
           else [Connect (SocketFile p1)])\<rparr>)"
proof -
  have sf: "\<exists>e. c_from_socket_file w p s = (Some e, s\<lparr>trace := trace s @ [Connect (SocketFile p)]\<rparr>)" for p
    using c_from_socket_file_refused [of w s p] assms by blast
  show ?thesis
    using sf [of p1] sf [of "''/run/user/'' @ str_nat (geteuid w) @ ''/Tor/control.socket''"]
    by (auto simp: automatic_socket_guess_def)
qed

text \<open>
  Claim C1, on the code. With the connection type \<open>automatic\<close>, no
  \<open>TOR_CONTROL_PORT\<close> and every connection attempt failing, construction raises
  TorErrorAutomatic, but the attempts made are not the documented ones: the first failure
  leaves the \<open>for\<close> loop of lines 241-243 through the \<open>except\<close> of line 244, so
  only port 9151 is tried; then the socket path of line 248 or 252 is tried, and then
  (except on Windows) the one of lines 263-267, which on a platform other than Linux and
  Darwin is the same path a second time. Ports 9153 and 9051 are never tried.
\<close>

theorem automatic_tries_first_port_only:
  assumes "connection_type st = ''automatic''"
      and "environ_TOR_CONTROL_PORT w = None \<or> environ_TOR_CONTROL_PORT w = Some []"
      and "\<forall>tr ep. ext_raises w (tr @ [Connect ep]) \<noteq> None"
  shows "\<exists>s'. init w stl st cb = Some (Inl TorErrorAutomatic, s')
     \<and> trace s' =
         (let p1 = (if platform_system w = ''Darwin''
                    then home_dir w @ ''/Library/Application Support/TorBrowser-Data/Tor/control.socket''
                    else [])
          in [Connect (TcpPort ''127.0.0.1'' 9151), Connect (SocketFile p1)] @
             (if platform_system w = ''Linux'' \<or> platform_system w = ''Darwin''
              then [Connect (SocketFile (''/run/user/'' @ str_nat (geteuid w) @ ''/Tor/control.socket''))]
              else if platform_system w = ''Windows'' then []
              else [Connect (SocketFile p1)]))"
proof -
  let ?s0 = "new_onion w stl st"
  have tr0: "trace ?s0 = []" by (simp add: new_onion_def)
  have fg: "automatic_first_guess w ?s0 = automatic_default_guess w ?s0"
    using assms(2) by (auto simp: automatic_first_guess_def)
  have ca: "\<exists>s'. connect_automatic w ?s0 = (Inl TorErrorAutomatic, s') \<and> trace s' =
         (let p1 = (if platform_system w = ''Darwin''
                    then home_dir w @ ''/Library/Application Support/TorBrowser-Data/Tor/control.socket''
                    else [])
          in [Connect (TcpPort ''127.0.0.1'' 9151), Connect (SocketFile p1)] @
             (if platform_system w = ''Linux'' \<or> platform_system w = ''Darwin''
              then [Connect (SocketFile (''/run/user/'' @ str_nat (geteuid w) @ ''/Tor/control.socket''))]
              else if platform_system w = ''Windows'' then []
              else [Connect (SocketFile p1)]))"
    by (simp add: connect_automatic_def fg automatic_default_guess_refused [OF assms(3)]
        automatic_socket_guess_refused [OF assms(3)] Let_def tr0)
  then obtain s' where s': "connect_automatic w ?s0 = (Inl TorErrorAutomatic, s')" by blast
  show ?thesis
    using ca assms(1) by (auto simp: init_def Let_def)
qed

theorem automatic_tries_first_port_only_witness:
  "\<exists>s'. init refusing_world False example_settings False = Some (Inl TorErrorAutomatic, s')
     \<and> trace s' = [Connect (TcpPort ''127.0.0.1'' 9151), Connect (SocketFile []),
                   Connect (SocketFile ''/run/user/1000/Tor/control.socket'')]
     \<and> Connect (TcpPort ''127.0.0.1'' 9153) \<notin> set (trace s')
     \<and> Connect (TcpPort ''127.0.0.1'' 9051) \<notin> set (trace s')"
proof -
  have h1: "connection_type example_settings = ''automatic''"
    by (simp add: example_settings_def)
  have h2: "environ_TOR_CONTROL_PORT refusing_world = None \<or> environ_TOR_CONTROL_PORT refusing_world = Some []"
    by (simp add: refusing_world_def quiet_world_def)
  have h3: "\<forall>tr ep. ext_raises refusing_world (tr @ [Connect ep]) \<noteq> None"
    by (simp add: refusing_world_def quiet_world_def)
  have uid: "str_nat (geteuid refusing_world) = ''1000''"
    by (simp add: refusing_world_def quiet_world_def str_nat.simps)
  have sys: "platform_system refusing_world = ''Linux''"
    by (simp add: refusing_world_def quiet_world_def)
  from automatic_tries_first_port_only [OF h1 h2 h3, of False False]
  show ?thesis
    by (auto simp: uid sys Let_def)
qed

subsection \<open>Manual settings\<close>

lemma manual_connect_unknown:
  "connection_type (settings s) \<noteq> ''control_port'' \<Longrightarrow>
   connection_type (settings s) \<noteq> ''socket_file'' \<Longrightarrow>
     manual_connect w s = (Inl (TorErrorSocketFile (socket_file_path (settings s))), s)"
  by (simp add: manual_connect_def Let_def)

lemma manual_connect_port_ok:
  assumes "connection_type (settings s) = ''control_port''"
    and "ext_raises w (trace s @ [Connect (TcpPort (control_port_address (settings s))
                                            (control_port_port (settings s)))]) = None"
  shows "manual_connect w s =
     (Inr (), s\<lparr>trace := trace s @ [Connect (TcpPort (control_port_address (settings s))
                                            (control_port_port (settings s)))],
                c := Some (TcpPort (control_port_address (settings s))
                                   (control_port_port (settings s)))\<rparr>)"
  using assms by (simp add: manual_connect_def c_from_port_eq Let_def)

lemma manual_connect_socket_ok:
  assumes "connection_type (settings s) = ''socket_file''"
    and "ext_raises w (trace s @ [Connect (SocketFile (socket_file_path (settings s)))]) = None"
  shows "manual_connect w s =
     (Inr (), s\<lparr>trace := trace s @ [Connect (SocketFile (socket_file_path (settings s)))],
                c := Some (SocketFile (socket_file_path (settings s)))\<rparr>)"
  using assms by (simp add: manual_connect_def c_from_socket_file_eq Let_def)

lemma manual_authenticate_unknown:
  "auth_type (settings s) \<noteq> ''no_auth'' \<Longrightarrow> auth_type (settings s) \<noteq> ''password'' \<Longrightarrow>
     manual_authenticate w s = (Inl TorErrorInvalidSetting, s)"
  by (simp add: manual_authenticate_def Let_def)

lemma new_onion_fields:
  "settings (new_onion w stl st) = st" "trace (new_onion w stl st) = []"
  by (simp_all add: new_onion_def)

text \<open>
  Claim C6, on the code. A connection type that is none of \<open>bundled\<close>,
  \<open>automatic\<close>, \<open>control_port\<close>, \<open>socket_file\<close> makes construction raise
  TorErrorSocketFile, not TorErrorInvalidSetting: line 293 raises the latter inside the
  \<open>try\<close> whose bare \<open>except\<close> (line 295) replaces it. An auth type that is neither
  \<open>no_auth\<close> nor \<open>password\<close> does raise TorErrorInvalidSetting, once the connection
  of lines 287-291 has been made.
\<close>

theorem invalid_settings_errors:
  "(connection_type st \<notin> {''bundled'', ''automatic'', ''control_port'', ''socket_file''}
      \<longrightarrow> init w stl st cb
            = Some (Inl (TorErrorSocketFile (socket_file_path st)), new_onion w stl st))
   \<and> (auth_type st \<notin> {''no_auth'', ''password''} \<longrightarrow>
        (connection_type st = ''control_port''
           \<and> ext_raises w [Connect (TcpPort (control_port_address st) (control_port_port st))] = None
         \<longrightarrow> init w stl st cb
              = Some (Inl TorErrorInvalidSetting,
                      (new_onion w stl st)
                        \<lparr>trace := [Connect (TcpPort (control_port_address st) (control_port_port st))],
                         c := Some (TcpPort (control_port_address st) (control_port_port st))\<rparr>))
      \<and> (connection_type st = ''socket_file''
           \<and> ext_raises w [Connect (SocketFile (socket_file_path st))] = None
         \<longrightarrow> init w stl st cb
              = Some (Inl TorErrorInvalidSetting,
                      (new_onion w stl st)
                        \<lparr>trace := [Connect (SocketFile (socket_file_path st))],
                         c := Some (SocketFile (socket_file_path st))\<rparr>)))"
proof (intro conjI impI)
  assume "connection_type st \<notin> {''bundled'', ''automatic'', ''control_port'', ''socket_file''}"
  then show "init w stl st cb
      = Some (Inl (TorErrorSocketFile (socket_file_path st)), new_onion w stl st)"
    by (simp add: init_def connect_manual_def manual_connect_unknown new_onion_fields Let_def)
next
  assume a: "auth_type st \<notin> {''no_auth'', ''password''}"
    and b: "connection_type st = ''control_port''
       \<and> ext_raises w [Connect (TcpPort (control_port_address st) (control_port_port st))] = None"
  show "init w stl st cb
      = Some (Inl TorErrorInvalidSetting,
              (new_onion w stl st)
                \<lparr>trace := [Connect (TcpPort (control_port_address st) (control_port_port st))],
                 c := Some (TcpPort (control_port_address st) (control_port_port st))\<rparr>)"
    using a b
    by (simp add: init_def connect_manual_def manual_connect_port_ok manual_authenticate_unknown
        new_onion_fields Let_def)
next
  assume a: "auth_type st \<notin> {''no_auth'', ''password''}"
    and b: "connection_type st = ''socket_file''
       \<and> ext_raises w [Connect (SocketFile (socket_file_path st))] = None"
  show "init w stl st cb
      = Some (Inl TorErrorInvalidSetting,
              (new_onion w stl st)
                \<lparr>trace := [Connect (SocketFile (socket_file_path st))],
                 c := Some (SocketFile (socket_file_path st))\<rparr>)"
    using a b
    by (simp add: init_def connect_manual_def manual_connect_socket_ok manual_authenticate_unknown
        new_onion_fields Let_def)
qed

theorem invalid_settings_errors_witness:
  "connection_type unknown_type_settings
      \<notin> {''bundled'', ''automatic'', ''control_port'', ''socket_file''}
   \<and> init quiet_world False unknown_type_settings False
       = Some (Inl (TorErrorSocketFile ''/var/run/tor/control''),
               new_onion quiet_world False unknown_type_settings)
   \<and> auth_type cookie_auth_settings \<notin> {''no_auth'', ''password''}
   \<and> fst (the (init quiet_world False cookie_auth_settings False)) = Inl TorErrorInvalidSetting"
  using invalid_settings_errors [of unknown_type_settings quiet_world False False]
    invalid_settings_errors [of cookie_auth_settings quiet_world False False]
  by (simp add: unknown_type_settings_def cookie_auth_settings_def example_settings_def
      quiet_world_def)

subsection \<open>Port allocation\<close>








subsection \<open>The bootstrap loop\<close>





end
